theory Spec2Isabelle
  imports Complex_Main "HOL-Library.AList"
begin

section \<open>Values of the JavaScript runtime\<close>

text \<open>
  The state files hold JSON. A parsed JSON document is a value of \<open>json\<close>; an object keeps
  its members in the order in which the runtime enumerates them. Numbers are modelled as
  integers (every number the program computes with is a port, an exit code or a count of
  milliseconds). A JavaScript \<open>undefined\<close> is \<open>None\<close> of an option type.
\<close>

datatype json =
    JNull
  | JBool bool
  | JNum int
  | JStr string
  | JArr "json list"
  | JObj "(string \<times> json) list"

text \<open>\<open>!value\<close> is true of null, false, 0 and the empty string.\<close>

fun falsy :: "json \<Rightarrow> bool" where
  "falsy JNull = True"
| "falsy (JBool b) = (\<not> b)"
| "falsy (JNum n) = (n = 0)"
| "falsy (JStr s) = (s = [])"
| "falsy (JArr xs) = False"
| "falsy (JObj kvs) = False"

text \<open>\<open>typeof value === 'object'\<close> holds of null, of arrays and of objects.\<close>

fun typeof_object :: "json \<Rightarrow> bool" where
  "typeof_object JNull = True"
| "typeof_object (JArr xs) = True"
| "typeof_object (JObj kvs) = True"
| "typeof_object v = False"

fun typeof_number :: "json option \<Rightarrow> bool" where
  "typeof_number (Some (JNum n)) = True"
| "typeof_number v = False"

fun typeof_string :: "json option \<Rightarrow> bool" where
  "typeof_string (Some (JStr s)) = True"
| "typeof_string v = False"

text \<open>
  \<open>value[field]\<close> for a field name that is not an array index: the member of an object,
  \<open>undefined\<close> on an array.
\<close>

fun js_prop :: "json \<Rightarrow> string \<Rightarrow> json option" where
  "js_prop (JObj kvs) f = map_of kvs f"
| "js_prop v f = None"

fun digit_char :: "nat \<Rightarrow> char" where
  "digit_char n = char_of (48 + n)"

fun string_of_nat :: "nat \<Rightarrow> string" where
  "string_of_nat n =
     (if n < 10 then [digit_char n] else string_of_nat (n div 10) @ [digit_char (n mod 10)])"

text \<open>\<open>Object.entries\<close>: the members of an object; the indexed elements of an array.\<close>

fun Object_entries :: "json \<Rightarrow> (string \<times> json) list" where
  "Object_entries (JObj kvs) = kvs"
| "Object_entries (JArr xs) = zip (map string_of_nat [0..<length xs]) xs"
| "Object_entries v = []"

text \<open>\<open>s.split(c)\<close> for a one-character separator.\<close>

fun split :: "char \<Rightarrow> string \<Rightarrow> string list" where
  "split c [] = [[]]"
| "split c (x # xs) =
     (if x = c then [] # split c xs
      else (case split c xs of [] \<Rightarrow> [[x]] | p # ps \<Rightarrow> (x # p) # ps))"

text \<open>\<open>s.trim()\<close>, \<open>s.includes(t)\<close> and \<open>s.toLowerCase()\<close> on ASCII text.\<close>

definition is_whitespace :: "char \<Rightarrow> bool" where
  "is_whitespace c = (c \<in> set [CHR '' '', CHR 0x09, CHR 0x0A, CHR 0x0B, CHR 0x0C, CHR 0x0D])"

definition trim :: "string \<Rightarrow> string" where
  "trim s = rev (dropWhile is_whitespace (rev (dropWhile is_whitespace s)))"

fun str_includes :: "string \<Rightarrow> string \<Rightarrow> bool" where
  "str_includes [] t = (t = [])"
| "str_includes (c # cs) t = (take (length t) (c # cs) = t \<or> str_includes cs t)"

definition toLowerCase :: "string \<Rightarrow> string" where
  "toLowerCase s =
     map (\<lambda>c. case map_of (zip ''ABCDEFGHIJKLMNOPQRSTUVWXYZ'' ''abcdefghijklmnopqrstuvwxyz'') c of
                 Some l \<Rightarrow> l
               | None \<Rightarrow> c) s"

text \<open>
  An optional member of an options object: the key may be missing, or present with the
  value \<open>undefined\<close>.
\<close>

datatype 'a optional =
    Absent
  | Undefined
  | Present 'a

section \<open>Errors\<close>

text \<open>
  Every \<open>throw\<close> of the program is a value of \<open>error\<close>: one constructor for each error
  class, carrying what the class's constructor is given. A function that may throw returns
  \<open>error + 'a\<close>, with \<open>Inl\<close> for the thrown error.
\<close>

datatype ssh_message =
    NotConnected
  | ClientNotAvailable
  | FailedToExecuteCommand string
  | StreamErrorDuringExecution string
  | CommandFailedAfterRetries

datatype connection_cause =
    ClientNotInitialized
  | HostNotFound string
  | ConnectionTimeoutAfter "nat optional" string
  | ConnectionRefused string
  | OtherConnectionFailure string
  | ConnectionTimeout "nat optional"
  | FailedToInitiateConnection string

datatype authentication_cause =
    FailedToReadSSHKey
  | AuthenticationFailed string

datatype port_message =
    PortBelowMinimum int
  | PortExceedsMaximum int
  | NoAvailablePorts int

datatype error_message =
    ContainerCrashedDuringStartup string string
  | FailedToBecomeReadyWithin nat
  | ThrownBySsh2 string

datatype error =
    SSHError ssh_message
  | SSHConnectionError connection_cause
  | SSHAuthenticationError authentication_cause
  | SSHCommandError int string
  | SSHTimeoutError string nat
  | PortAllocationError port_message
  | StateValidationError validation_message
  | Error error_message
and validation_message =
    StateMustBeObject
  | StateMustContainInstances
  | InvalidInstanceKeyFormat string
  | InvalidInstanceMetadata string
  | MissingRequiredField string string
  | InvalidFieldMustBeNumber string string
  | InvalidFieldMustBeString string string
  | InvalidFieldMustBeStringIfProvided string string
  | FailedToReadStateFile string
  | FailedToParseStateFile string
  | FailedToCreateStateDirectory string
  | FailedToWriteTempStateFile string
  | FailedToRenameTempStateFile string string
  | RemoteStateFileCorrupted
  | PermissionDeniedReadingRemoteState
  | FailedToReadRemoteState error
  | FailedToWriteRemoteState error

text \<open>
  The continuation of a call that may throw: the rest runs on the value returned, in the
  world the call left; a thrown error passes through.
\<close>

definition and_then ::
  "('e + 'a) \<times> 'w \<Rightarrow> ('a \<Rightarrow> 'w \<Rightarrow> ('e + 'b) \<times> 'w) \<Rightarrow> ('e + 'b) \<times> 'w" where
  "and_then r f = (case r of (Inl e, w) \<Rightarrow> (Inl e, w) | (Inr x, w) \<Rightarrow> f x w)"

section \<open>State schema\<close>

record InstanceMetadata =
  port :: int
  dbName :: string
  username :: string
  password :: string
  rootPassword :: string
  volume :: string
  containerName :: string
  createdAt :: string
  lastBackup :: "string option"

record DbxState =
  instances :: "(string \<times> InstanceMetadata) list"

definition createEmptyState :: DbxState where
  "createEmptyState = \<lparr>instances = []\<rparr>"

definition validateInstanceKey :: "string \<Rightarrow> error + unit" where
  "validateInstanceKey key =
     (let parts = split CHR ''/'' key in
      if length parts \<noteq> 2 \<or> parts ! 0 = [] \<or> parts ! 1 = []
      then Inl (StateValidationError (InvalidInstanceKeyFormat key))
      else Inr ())"


definition requiredFields :: "string list" where
  "requiredFields =
     [''port'', ''dbName'', ''username'', ''password'', ''rootPassword'', ''volume'',
      ''containerName'', ''createdAt'']"

definition stringFields :: "string list" where
  "stringFields =
     [''dbName'', ''username'', ''password'', ''rootPassword'', ''volume'',
      ''containerName'', ''createdAt'']"

text \<open>The typed view of a member that has passed the checks (\<open>as DbxState\<close>).\<close>

fun as_number :: "json option \<Rightarrow> int" where
  "as_number (Some (JNum n)) = n"
| "as_number v = 0"

fun as_string :: "json option \<Rightarrow> string" where
  "as_string (Some (JStr s)) = s"
| "as_string v = []"

fun as_optional_string :: "json option \<Rightarrow> string option" where
  "as_optional_string (Some (JStr s)) = Some s"
| "as_optional_string v = None"

definition asInstanceMetadata :: "json \<Rightarrow> InstanceMetadata" where
  "asInstanceMetadata inst =
     \<lparr>port = as_number (js_prop inst ''port''),
      dbName = as_string (js_prop inst ''dbName''),
      username = as_string (js_prop inst ''username''),
      password = as_string (js_prop inst ''password''),
      rootPassword = as_string (js_prop inst ''rootPassword''),
      volume = as_string (js_prop inst ''volume''),
      containerName = as_string (js_prop inst ''containerName''),
      createdAt = as_string (js_prop inst ''createdAt''),
      lastBackup = as_optional_string (js_prop inst ''lastBackup'')\<rparr>"

text \<open>The body of the loop of \<open>validateState\<close> over one entry of \<open>instances\<close>.\<close>

definition validateInstance :: "string \<Rightarrow> json \<Rightarrow> error + InstanceMetadata" where
  "validateInstance key val =
     (case validateInstanceKey key of
        Inl e \<Rightarrow> Inl e
      | Inr u \<Rightarrow>
          if falsy val \<or> \<not> typeof_object val then Inl (StateValidationError (InvalidInstanceMetadata key))
          else (case find (\<lambda>field. js_prop val field = None) requiredFields of
             Some field \<Rightarrow> Inl (StateValidationError (MissingRequiredField field key))
           | None \<Rightarrow>
               if \<not> typeof_number (js_prop val ''port'')
               then Inl (StateValidationError (InvalidFieldMustBeNumber ''port'' key))
               else (case find (\<lambda>field. \<not> typeof_string (js_prop val field)) stringFields of
                  Some field \<Rightarrow> Inl (StateValidationError (InvalidFieldMustBeString field key))
                | None \<Rightarrow>
                    if js_prop val ''lastBackup'' \<noteq> None \<and> \<not> typeof_string (js_prop val ''lastBackup'')
                    then Inl (StateValidationError (InvalidFieldMustBeStringIfProvided ''lastBackup'' key))
                    else Inr (asInstanceMetadata val))))"

fun validateInstances ::
  "(string \<times> json) list \<Rightarrow> error + (string \<times> InstanceMetadata) list" where
  "validateInstances [] = Inr []"
| "validateInstances ((key, val) # rest) =
     (case validateInstance key val of
        Inl e \<Rightarrow> Inl e
      | Inr m \<Rightarrow>
          (case validateInstances rest of
             Inl e \<Rightarrow> Inl e
           | Inr ms \<Rightarrow> Inr ((key, m) # ms)))"

definition validateState :: "json \<Rightarrow> error + DbxState" where
  "validateState state =
     (if falsy state \<or> \<not> typeof_object state then Inl (StateValidationError StateMustBeObject)
      else (case js_prop state ''instances'' of
         None \<Rightarrow> Inl (StateValidationError StateMustContainInstances)
       | Some insts \<Rightarrow>
           if falsy insts \<or> \<not> typeof_object insts then Inl (StateValidationError StateMustContainInstances)
           else (case validateInstances (Object_entries insts) of
              Inl e \<Rightarrow> Inl e
            | Inr ms \<Rightarrow> Inr \<lparr>instances = ms\<rparr>)))"

text \<open>
  The data model of the specification, in its words: the assigned port is an integer within
  1024 to 65535 and every string field of a valid record is non-empty.
\<close>

definition InstanceRecord_fully_valid :: "InstanceMetadata \<Rightarrow> bool" where
  "InstanceRecord_fully_valid m \<longleftrightarrow>
     1024 \<le> port m \<and> port m \<le> 65535 \<and> dbName m \<noteq> [] \<and> username m \<noteq> [] \<and> password m \<noteq> []
     \<and> rootPassword m \<noteq> [] \<and> volume m \<noteq> [] \<and> containerName m \<noteq> [] \<and> createdAt m \<noteq> []"

section \<open>Port allocation\<close>

definition MIN_PORT :: int where
  "MIN_PORT = 1024"

definition MAX_PORT :: int where
  "MAX_PORT = 65535"

definition HIGH_PORT_WARNING :: int where
  "HIGH_PORT_WARNING = 65500"

text \<open>Lines the allocator prints; the result of a function carries the lines it printed.\<close>

datatype console_line =
    WarnPortNearMaximum int
  | LogAllocatedPort int int

definition validatePort :: "int \<Rightarrow> error + console_line list" where
  "validatePort p =
     (if p < MIN_PORT then Inl (PortAllocationError (PortBelowMinimum p))
      else if p > MAX_PORT then Inl (PortAllocationError (PortExceedsMaximum p))
      else if p \<ge> HIGH_PORT_WARNING then Inr [WarnPortNearMaximum p]
      else Inr [])"

definition getUsedPortsFromLocalState :: "DbxState \<Rightarrow> int set" where
  "getUsedPortsFromLocalState localState = set (map (\<lambda>(k, instance). port instance) (instances localState))"

definition getAllUsedPorts :: "DbxState \<Rightarrow> DbxState option \<Rightarrow> int set" where
  "getAllUsedPorts localState remoteState =
     (case remoteState of
        None \<Rightarrow> getUsedPortsFromLocalState localState
      | Some r \<Rightarrow>
          getUsedPortsFromLocalState localState
            \<union> set (map (\<lambda>(k, instance). port instance) (instances r)))"

text \<open>The \<open>while (port <= MAX_PORT)\<close> loop of \<open>findNextPort\<close>.\<close>

function findNextPort_loop ::
  "int set \<Rightarrow> int \<Rightarrow> int \<Rightarrow> error + int \<times> console_line list" where
  "findNextPort_loop usedPorts basePort p =
     (if p \<le> MAX_PORT then
        (if p \<notin> usedPorts then
           (case validatePort p of
              Inl e \<Rightarrow> Inl e
            | Inr warned \<Rightarrow> Inr (p, warned @ [LogAllocatedPort p basePort]))
         else findNextPort_loop usedPorts basePort (p + 1))
      else Inl (PortAllocationError (NoAvailablePorts basePort)))"
  by pat_completeness auto
termination
  by (relation "measure (\<lambda>(usedPorts, basePort, p). nat (MAX_PORT + 1 - p))") auto

definition findNextPort ::
  "DbxState \<Rightarrow> int \<Rightarrow> DbxState option \<Rightarrow> error + int \<times> console_line list" where
  "findNextPort localState basePort remoteState =
     (case validatePort basePort of
        Inl e \<Rightarrow> Inl e
      | Inr warned \<Rightarrow>
          (case findNextPort_loop (getAllUsedPorts localState remoteState) basePort basePort of
             Inl e \<Rightarrow> Inl e
           | Inr (p, printed) \<Rightarrow> Inr (p, warned @ printed)))"


section \<open>The world the program runs in\<close>

text \<open>
  The controlling machine's file system holds files (content and permission bits) and
  directories (permission bits); \<open>vps\<close> is the state of the managed host, of which the
  program knows only what its commands report; \<open>clock\<close> is \<open>Date.now()\<close> in milliseconds
  and \<open>timers\<close> the delays the program has slept, in order.
\<close>

type_synonym path = string

record 'r world =
  files :: "path \<Rightarrow> (string \<times> nat) option"
  dirs :: "path \<Rightarrow> nat option"
  vps :: 'r
  clock :: nat
  timers :: "rat list"

datatype fs_call =
    Access path
  | ReadFile path
  | Mkdir path
  | Chmod path
  | WriteFile path
  | Rename path path

datatype stream_event =
    ExecCallbackError string
  | StdoutData string
  | StderrData string
  | StreamClose "int option"
  | StreamErrorEvent string

datatype exec_outcome =
    ExecThrows string
  | ExecEvents "(nat \<times> stream_event) list"

datatype connect_outcome =
    ConnectThrows string
  | ReadyEvent nat
  | ErrorEvent nat string
  | NoEvent

text \<open>
  What the program does not decide: the JSON library, which calls of the file system are
  refused by the operating system, and what the managed host answers. \<open>ssh2_exec\<close> tells
  whether the ssh2 client throws when it is given the command (as it does on a link that
  has dropped) or else gives the events of the command's channel, each with the
  milliseconds after the call at which it arrives; \<open>ssh2_connect\<close> gives the first event
  of a connection attempt.
\<close>

record 'r platform =
  JSON_parse :: "string \<Rightarrow> json option"
  JSON_stringify :: "json \<Rightarrow> string"
  fs_fails :: "fs_call \<Rightarrow> bool"
  ssh2_connect :: "'r \<Rightarrow> connect_outcome \<times> 'r"
  ssh2_exec :: "string \<Rightarrow> 'r \<Rightarrow> exec_outcome \<times> 'r"

text \<open>
  The calls of \<open>fs/promises\<close>. A call that throws is \<open>None\<close> and leaves the file system as
  it was. \<open>access\<close> succeeds when the path exists and the operating system does not refuse
  the call (as it does for a file in a directory the process may not search).
\<close>

definition fs_access :: "'r platform \<Rightarrow> 'r world \<Rightarrow> path \<Rightarrow> bool" where
  "fs_access P w p = (\<not> fs_fails P (Access p) \<and> (files w p \<noteq> None \<or> dirs w p \<noteq> None))"

definition fs_readFile :: "'r platform \<Rightarrow> 'r world \<Rightarrow> path \<Rightarrow> string option" where
  "fs_readFile P w p =
     (if fs_fails P (ReadFile p) then None else map_option fst (files w p))"

definition fs_mkdir :: "'r platform \<Rightarrow> path \<Rightarrow> nat \<Rightarrow> 'r world \<Rightarrow> 'r world option" where
  "fs_mkdir P p m w =
     (if fs_fails P (Mkdir p) \<or> files w p \<noteq> None then None
      else if dirs w p \<noteq> None then Some w
      else Some (w\<lparr>dirs := (dirs w)(p \<mapsto> m)\<rparr>))"

definition fs_chmod :: "'r platform \<Rightarrow> path \<Rightarrow> nat \<Rightarrow> 'r world \<Rightarrow> 'r world option" where
  "fs_chmod P p m w =
     (if fs_fails P (Chmod p) then None
      else (case files w p of
         Some (c, m') \<Rightarrow> Some (w\<lparr>files := (files w)(p \<mapsto> (c, m))\<rparr>)
       | None \<Rightarrow> if dirs w p \<noteq> None then Some (w\<lparr>dirs := (dirs w)(p \<mapsto> m)\<rparr>) else None))"

definition fs_writeFile ::
  "'r platform \<Rightarrow> path \<Rightarrow> string \<Rightarrow> nat \<Rightarrow> 'r world \<Rightarrow> 'r world option" where
  "fs_writeFile P p c m w =
     (if fs_fails P (WriteFile p) \<or> dirs w p \<noteq> None then None
      else Some (w\<lparr>files := (files w)(p \<mapsto> (c, case files w p of None \<Rightarrow> m | Some (c', m') \<Rightarrow> m'))\<rparr>))"

definition fs_rename :: "'r platform \<Rightarrow> path \<Rightarrow> path \<Rightarrow> 'r world \<Rightarrow> 'r world option" where
  "fs_rename P a b w =
     (if fs_fails P (Rename a b) \<or> dirs w b \<noteq> None then None
      else (case files w a of
         None \<Rightarrow> None
       | Some f \<Rightarrow> Some (w\<lparr>files := ((files w)(a := None))(b \<mapsto> f)\<rparr>)))"

text \<open>
  The milliseconds after which a timer of \<open>setTimeout\<close> fires: the delay truncated to a
  whole number, and one millisecond for a delay below 1 or above 2147483647.
\<close>

definition setTimeout_delay :: "rat \<Rightarrow> nat" where
  "setTimeout_delay delay = (if 1 \<le> delay \<and> delay \<le> 2147483647 then nat \<lfloor>delay\<rfloor> else 1)"

text \<open>\<open>await new Promise((resolve) => setTimeout(resolve, delay))\<close>.\<close>

definition sleep :: "rat \<Rightarrow> 'r world \<Rightarrow> 'r world" where
  "sleep delay w = w\<lparr>clock := clock w + setTimeout_delay delay, timers := timers w @ [delay]\<rparr>"

section \<open>Local state store\<close>

definition STATE_DIR_NAME :: string where
  "STATE_DIR_NAME = ''.dbx''"

definition STATE_FILE_NAME :: string where
  "STATE_FILE_NAME = ''state.json''"

definition DIR_PERMISSIONS :: nat where
  "DIR_PERMISSIONS = 448"

definition FILE_PERMISSIONS :: nat where
  "FILE_PERMISSIONS = 384"

definition join :: "path \<Rightarrow> string \<Rightarrow> path" where
  "join dir name = dir @ ''/'' @ name"

text \<open>What \<open>JSON.stringify\<close> is given: the members of a state object, in their order.\<close>

definition instance_toJSON :: "InstanceMetadata \<Rightarrow> json" where
  "instance_toJSON m =
     JObj ([(''port'', JNum (port m)), (''dbName'', JStr (dbName m)),
            (''username'', JStr (username m)), (''password'', JStr (password m)),
            (''rootPassword'', JStr (rootPassword m)), (''volume'', JStr (volume m)),
            (''containerName'', JStr (containerName m)), (''createdAt'', JStr (createdAt m))]
           @ (case lastBackup m of None \<Rightarrow> [] | Some b \<Rightarrow> [(''lastBackup'', JStr b)]))"

definition state_toJSON :: "DbxState \<Rightarrow> json" where
  "state_toJSON state =
     JObj [(''instances'', JObj (map (\<lambda>(key, m). (key, instance_toJSON m)) (instances state)))]"

definition readState :: "'r platform \<Rightarrow> path \<Rightarrow> 'r world \<Rightarrow> error + DbxState" where
  "readState P cwd w =
     (let statePath = join (join cwd STATE_DIR_NAME) STATE_FILE_NAME in
      if \<not> fs_access P w statePath then Inr createEmptyState
      else (case fs_readFile P w statePath of
         None \<Rightarrow> Inl (StateValidationError (FailedToReadStateFile statePath))
       | Some rawContent \<Rightarrow>
           (case JSON_parse P rawContent of
              None \<Rightarrow> Inl (StateValidationError (FailedToParseStateFile statePath))
            | Some parsedState \<Rightarrow> validateState parsedState)))"

definition writeState ::
  "'r platform \<Rightarrow> DbxState \<Rightarrow> path \<Rightarrow> 'r world \<Rightarrow> (error + unit) \<times> 'r world" where
  "writeState P state cwd w =
     (let stateDir = join cwd STATE_DIR_NAME;
          statePath = join stateDir STATE_FILE_NAME;
          tempPath = join stateDir (STATE_FILE_NAME @ ''.tmp'')
      in case fs_mkdir P stateDir DIR_PERMISSIONS w of
           None \<Rightarrow> (Inl (StateValidationError (FailedToCreateStateDirectory stateDir)), w)
         | Some w1 \<Rightarrow>
        (case fs_chmod P stateDir DIR_PERMISSIONS w1 of
           None \<Rightarrow> (Inl (StateValidationError (FailedToCreateStateDirectory stateDir)), w1)
         | Some w2 \<Rightarrow>
        (let content = JSON_stringify P (state_toJSON state) @ ''\<newline>'' in
         case fs_writeFile P tempPath content FILE_PERMISSIONS w2 of
           None \<Rightarrow> (Inl (StateValidationError (FailedToWriteTempStateFile tempPath)), w2)
         | Some w3 \<Rightarrow>
        (case fs_rename P tempPath statePath w3 of
           None \<Rightarrow> (Inl (StateValidationError (FailedToRenameTempStateFile tempPath statePath)), w3)
         | Some w4 \<Rightarrow>
        (case fs_chmod P statePath FILE_PERMISSIONS w4 of
           None \<Rightarrow> (Inr (), w4)
         | Some w5 \<Rightarrow> (Inr (), w5))))))"




section \<open>SSH client\<close>

record SSHConfig =
  host :: string
  privateKeyPath :: path
  connectTimeout :: "nat optional"
  execTimeout :: "nat optional"

record ExecResult =
  stdout :: string
  stderr :: string
  exitCode :: int

definition DEFAULT_CONNECT_TIMEOUT :: nat where
  "DEFAULT_CONNECT_TIMEOUT = 30000"

definition DEFAULT_EXEC_TIMEOUT :: nat where
  "DEFAULT_EXEC_TIMEOUT = 120000"

text \<open>
  An \<open>SSHClient\<close> object: \<open>client\<close> tells whether \<open>this.client\<close> is set. The constructor
  spreads the configuration over the two default timeouts, so that a default stands only
  where the configuration has no such key.
\<close>

record SSHClient =
  config :: SSHConfig
  client :: bool
  connected :: bool

definition new_SSHClient :: "SSHConfig \<Rightarrow> SSHClient" where
  "new_SSHClient cfg =
     \<lparr>config = cfg\<lparr>connectTimeout :=
                      (case connectTimeout cfg of Absent \<Rightarrow> Present DEFAULT_CONNECT_TIMEOUT | given \<Rightarrow> given),
                    execTimeout :=
                      (case execTimeout cfg of Absent \<Rightarrow> Present DEFAULT_EXEC_TIMEOUT | given \<Rightarrow> given)\<rparr>,
      client = False, connected = False\<rparr>"

text \<open>The classification of an \<open>error\<close> event of a connection attempt.\<close>

definition classify_connect_error :: "string \<Rightarrow> nat optional \<Rightarrow> error" where
  "classify_connect_error message timeout =
     (let errMsg = toLowerCase message in
      if str_includes errMsg ''getaddrinfo'' \<or> str_includes errMsg ''enotfound''
      then SSHConnectionError (HostNotFound message)
      else if str_includes errMsg ''etimedout'' \<or> str_includes errMsg ''timeout''
      then SSHConnectionError (ConnectionTimeoutAfter timeout message)
      else if str_includes errMsg ''econnrefused''
      then SSHConnectionError (ConnectionRefused message)
      else if str_includes errMsg ''auth'' \<or> str_includes errMsg ''permission''
              \<or> str_includes errMsg ''publickey''
      then SSHAuthenticationError (AuthenticationFailed message)
      else SSHConnectionError (OtherConnectionFailure message))"

text \<open>The timer a timeout of the configuration sets: \<open>setTimeout(f, undefined)\<close> fires
  after one millisecond.\<close>

definition timer_of :: "nat optional \<Rightarrow> nat" where
  "timer_of timeout = (case timeout of Present t \<Rightarrow> setTimeout_delay (of_nat t) | _ \<Rightarrow> 1)"

definition connect ::
  "'r platform \<Rightarrow> SSHClient \<Rightarrow> 'r world \<Rightarrow> (error + SSHClient) \<times> 'r world" where
  "connect P c w =
     (if connected c then (Inr c, w)
      else (case fs_readFile P w (privateKeyPath (config c)) of
         None \<Rightarrow> (Inl (SSHAuthenticationError FailedToReadSSHKey), w)
       | Some privateKey \<Rightarrow>
           (let timeout = connectTimeout (config c);
                timer = timer_of timeout;
                (outcome, r) = ssh2_connect P (vps w)
            in case outcome of
                 ConnectThrows message \<Rightarrow>
                   (Inl (SSHConnectionError (FailedToInitiateConnection message)), w\<lparr>vps := r\<rparr>)
               | ReadyEvent t \<Rightarrow>
                   if t < timer
                   then (Inr (c\<lparr>client := True, connected := True\<rparr>), w\<lparr>vps := r, clock := clock w + t\<rparr>)
                   else (Inl (SSHConnectionError (ConnectionTimeout timeout)),
                         w\<lparr>vps := r, clock := clock w + timer\<rparr>)
               | ErrorEvent t message \<Rightarrow>
                   if t < timer
                   then (Inl (classify_connect_error message timeout), w\<lparr>vps := r, clock := clock w + t\<rparr>)
                   else (Inl (SSHConnectionError (ConnectionTimeout timeout)),
                         w\<lparr>vps := r, clock := clock w + timer\<rparr>)
               | NoEvent \<Rightarrow>
                   (Inl (SSHConnectionError (ConnectionTimeout timeout)),
                    w\<lparr>vps := r, clock := clock w + timer\<rparr>))))"

text \<open>
  The promise of \<open>exec\<close>, once the ssh2 client has taken the command: the handlers run in
  the order of the channel's events and the first of them to settle the promise decides;
  the timer, set for \<open>execTimeout\<close>, settles it when no handler has done so before it
  fires. The second component is the time the promise took.
\<close>

fun exec_events ::
  "string \<Rightarrow> nat \<Rightarrow> nat \<Rightarrow> string \<Rightarrow> string \<Rightarrow> (nat \<times> stream_event) list
     \<Rightarrow> (error + ExecResult) \<times> nat" where
  "exec_events command timeout timer out err [] = (Inl (SSHTimeoutError command timeout), timer)"
| "exec_events command timeout timer out err ((t, ev) # evs) =
     (if timer \<le> t then (Inl (SSHTimeoutError command timeout), timer)
      else (case ev of
         ExecCallbackError message \<Rightarrow> (Inl (SSHError (FailedToExecuteCommand message)), t)
       | StdoutData d \<Rightarrow> exec_events command timeout timer (out @ d) err evs
       | StderrData d \<Rightarrow> exec_events command timeout timer out (err @ d) evs
       | StreamClose code \<Rightarrow>
           (Inr \<lparr>stdout = trim out, stderr = trim err,
                 exitCode = (case code of None \<Rightarrow> 0 | Some n \<Rightarrow> n)\<rparr>, t)
       | StreamErrorEvent message \<Rightarrow> (Inl (SSHError (StreamErrorDuringExecution message)), t)))"

text \<open>
  \<open>exec\<close>. The call of the ssh2 client stands in the promise's executor with no handler
  around it: when it throws, the promise is rejected with what it threw.
\<close>

definition exec ::
  "'r platform \<Rightarrow> SSHClient \<Rightarrow> string \<Rightarrow> nat option \<Rightarrow> 'r world \<Rightarrow> (error + ExecResult) \<times> 'r world" where
  "exec P c command timeout w =
     (if \<not> connected c \<or> \<not> client c then (Inl (SSHError NotConnected), w)
      else (let execTimeout =
                  (case timeout of
                     Some t \<Rightarrow> t
                   | None \<Rightarrow> (case execTimeout (config c) of
                                Present t \<Rightarrow> t | _ \<Rightarrow> DEFAULT_EXEC_TIMEOUT));
                (outcome, r) = ssh2_exec P command (vps w)
            in case outcome of
                 ExecThrows message \<Rightarrow> (Inl (Error (ThrownBySsh2 message)), w\<lparr>vps := r\<rparr>)
               | ExecEvents events \<Rightarrow>
                   (let (result, elapsed) =
                          exec_events command execTimeout (setTimeout_delay (of_nat execTimeout))
                            [] [] events
                    in (result, w\<lparr>vps := r, clock := clock w + elapsed\<rparr>))))"




definition disconnect :: "SSHClient \<Rightarrow> SSHClient" where
  "disconnect c = (if client c then c\<lparr>client := False, connected := False\<rparr> else c)"

text \<open>
  One pass of the \<open>try\<close> block of \<open>execWithRetry\<close>, on a fresh client. The client is
  disconnected and dropped on either way out of the block.
\<close>

definition execWithRetry_attempt ::
  "'r platform \<Rightarrow> SSHConfig \<Rightarrow> string \<Rightarrow> 'r world \<Rightarrow> (error + ExecResult) \<times> 'r world" where
  "execWithRetry_attempt P cfg command w =
     and_then (connect P (new_SSHClient cfg) w) (\<lambda>c w1. exec P c command None w1)"

definition retry_delay :: "int \<Rightarrow> rat" where
  "retry_delay attempt =
     (if 0 \<le> attempt \<and> attempt < 3 then [1000, 2000, 4000] ! nat attempt else 4000)"

function execWithRetry_loop ::
  "'r platform \<Rightarrow> SSHConfig \<Rightarrow> string \<Rightarrow> int \<Rightarrow> int \<Rightarrow> error option \<Rightarrow> 'r world
     \<Rightarrow> (error + ExecResult) \<times> 'r world" where
  "execWithRetry_loop P cfg command maxRetries attempt lastError w =
     (if attempt \<le> maxRetries then
        (case execWithRetry_attempt P cfg command w of
           (Inr result, w1) \<Rightarrow> (Inr result, w1)
         | (Inl err, w1) \<Rightarrow>
             (case err of
                SSHAuthenticationError cause \<Rightarrow> (Inl err, w1)
              | SSHCommandError code output \<Rightarrow> (Inl err, w1)
              | _ \<Rightarrow>
                  execWithRetry_loop P cfg command maxRetries (attempt + 1) (Some err)
                    (if attempt < maxRetries then sleep (retry_delay attempt) w1 else w1)))
      else (case lastError of
              Some err \<Rightarrow> (Inl err, w)
            | None \<Rightarrow> (Inl (SSHError CommandFailedAfterRetries), w)))"
  by pat_completeness auto
termination
  by (relation "measure (\<lambda>(P, cfg, command, maxRetries, attempt, lastError, w).
                   nat (maxRetries + 1 - attempt))") auto

definition execWithRetry ::
  "'r platform \<Rightarrow> SSHConfig \<Rightarrow> string \<Rightarrow> int \<Rightarrow> 'r world \<Rightarrow> (error + ExecResult) \<times> 'r world" where
  "execWithRetry P cfg command maxRetries w =
     execWithRetry_loop P cfg command maxRetries 0 None w"

section \<open>Remote state store\<close>

definition REMOTE_STATE_DIR :: string where
  "REMOTE_STATE_DIR = ''/var/lib/dbx''"

definition REMOTE_STATE_FILE :: string where
  "REMOTE_STATE_FILE = REMOTE_STATE_DIR @ ''/state.json''"



text \<open>The \<open>try\<close> block of \<open>readRemoteState\<close>, and its \<open>catch\<close> handler.\<close>

definition readRemoteState_try ::
  "'r platform \<Rightarrow> SSHClient \<Rightarrow> 'r world \<Rightarrow> (error + DbxState) \<times> 'r world" where
  "readRemoteState_try P c w =
     and_then (exec P c (''cat '' @ REMOTE_STATE_FILE) None w) (\<lambda>result w1.
       if exitCode result \<noteq> 0 then (Inr createEmptyState, w1)
       else (case JSON_parse P (stdout result) of
          None \<Rightarrow> (Inl (StateValidationError RemoteStateFileCorrupted), w1)
        | Some parsedState \<Rightarrow> (validateState parsedState, w1)))"

definition readRemoteState_catch :: "error \<Rightarrow> error + DbxState" where
  "readRemoteState_catch err =
     (case err of
        SSHCommandError code output \<Rightarrow>
          if str_includes output ''No such file or directory'' then Inr createEmptyState
          else if str_includes output ''Permission denied''
          then Inl (StateValidationError PermissionDeniedReadingRemoteState)
          else Inl (StateValidationError (FailedToReadRemoteState err))
      | StateValidationError message \<Rightarrow> Inl err
      | _ \<Rightarrow> Inl (StateValidationError (FailedToReadRemoteState err)))"

definition readRemoteState ::
  "'r platform \<Rightarrow> SSHClient \<Rightarrow> 'r world \<Rightarrow> (error + DbxState) \<times> 'r world" where
  "readRemoteState P c w =
     (case readRemoteState_try P c w of
        (Inr state, w1) \<Rightarrow> (Inr state, w1)
      | (Inl err, w1) \<Rightarrow> (readRemoteState_catch err, w1))"





section \<open>MongoDB container\<close>

definition docker_ps_command :: "string \<Rightarrow> string" where
  \<open>docker_ps_command name = ''docker ps --filter name='' @ name @ '' --format "{{.Names}}"''\<close>


text \<open>\<open>/ok\s*[:=]\s*1/i.test(s)\<close>.\<close>

definition ok_1_here :: "string \<Rightarrow> bool" where
  "ok_1_here s =
     (case s of
        c1 # c2 # rest \<Rightarrow>
          toLowerCase [c1, c2] = ''ok'' \<and>
          (case dropWhile is_whitespace rest of
             c3 # rest' \<Rightarrow>
               (c3 = CHR '':'' \<or> c3 = CHR ''='') \<and>
               (case dropWhile is_whitespace rest' of c4 # rest'' \<Rightarrow> c4 = CHR ''1'' | [] \<Rightarrow> False)
           | [] \<Rightarrow> False)
      | _ \<Rightarrow> False)"

fun ok_1_test :: "string \<Rightarrow> bool" where
  "ok_1_test [] = False"
| "ok_1_test (c # cs) = (ok_1_here (c # cs) \<or> ok_1_test cs)"

definition shell_escape :: "string \<Rightarrow> string" where
  "shell_escape s =
     concat (map (\<lambda>c. if c = CHR 0x27 then [CHR 0x27, CHR 0x5C, CHR 0x27, CHR 0x27] else [c]) s)"

definition mongo_ping_command :: "string \<Rightarrow> string \<Rightarrow> string \<Rightarrow> string" where
  \<open>mongo_ping_command name rootUsername rootPwd =
     ''docker exec '' @ name @ '' mongosh --quiet -u '' @ rootUsername @ '' -p '' @ [CHR 0x27]
       @ shell_escape rootPwd @ [CHR 0x27]
       @ '' --authenticationDatabase admin --eval "db.adminCommand({ ping: 1 })"''\<close>

text \<open>
  The \<open>try\<close> block in the loop of \<open>waitForMongoReady\<close>: \<open>Inr True\<close> when it returns from
  the function, \<open>Inr False\<close> when it runs to its end, \<open>Inl\<close> when it throws.
\<close>

definition waitForMongoReady_try ::
  "'r platform \<Rightarrow> SSHClient \<Rightarrow> string \<Rightarrow> string \<Rightarrow> string \<Rightarrow> 'r world \<Rightarrow> (error + bool) \<times> 'r world" where
  "waitForMongoReady_try P c name rootUsername rootPwd w =
     and_then (exec P c (docker_ps_command name) None w) (\<lambda>psResult w1.
       if \<not> str_includes (stdout psResult) name then
         and_then (exec P c (''docker logs --tail 50 '' @ name) None w1) (\<lambda>logsResult w2.
           (Inl (Error (ContainerCrashedDuringStartup (stdout logsResult) (stderr logsResult))), w2))
       else
         and_then (exec P c (mongo_ping_command name rootUsername rootPwd) (Some 10000) w1)
           (\<lambda>pingResult w2.
              if exitCode pingResult = 0 \<and> ok_1_test (stdout pingResult) then (Inr True, w2)
              else (Inr False, w2)))"

text \<open>
  The loop of \<open>waitForMongoReady\<close>. Its \<open>catch\<close> handler is empty: whatever the block
  throws, the loop goes on to the wait.
\<close>

function waitForMongoReady_loop ::
  "'r platform \<Rightarrow> SSHClient \<Rightarrow> string \<Rightarrow> string \<Rightarrow> string \<Rightarrow> nat \<Rightarrow> nat \<Rightarrow> rat \<Rightarrow> 'r world
     \<Rightarrow> (error + unit) \<times> 'r world" where
  "waitForMongoReady_loop P c name rootUsername rootPwd timeout startTime delay w =
     (if clock w - startTime < timeout then
        (if fst (waitForMongoReady_try P c name rootUsername rootPwd w) = Inr True
         then (Inr (), snd (waitForMongoReady_try P c name rootUsername rootPwd w))
         else waitForMongoReady_loop P c name rootUsername rootPwd timeout startTime
                (min (delay * (3 / 2)) 5000)
                (sleep delay (snd (waitForMongoReady_try P c name rootUsername rootPwd w))))
      else (Inl (Error (FailedToBecomeReadyWithin timeout)), w))"
  by pat_completeness auto

lemma exec_clock: "clock w \<le> clock (snd (exec P c command timeout w))"
  by (simp add: exec_def Let_def split: prod.splits exec_outcome.splits)

lemma and_then_clock:
  assumes "clock w \<le> clock (snd r)"
    and "\<And>x w1. clock w1 \<le> clock (snd (f x w1))"
  shows "clock w \<le> clock (snd (and_then r f))"
proof (cases r)
  case (Pair a w1)
  show ?thesis
  proof (cases a)
    case (Inl e)
    with Pair assms(1) show ?thesis by (simp add: and_then_def)
  next
    case (Inr x)
    with Pair assms(1) assms(2) [of w1 x] show ?thesis by (simp add: and_then_def)
  qed
qed

lemma waitForMongoReady_try_clock:
  "clock w \<le> clock (snd (waitForMongoReady_try P c name rootUsername rootPwd w))"
  unfolding waitForMongoReady_try_def
  by (intro and_then_clock exec_clock) (auto intro!: and_then_clock exec_clock)

lemma setTimeout_delay_positive: "0 < setTimeout_delay delay"
proof (cases "1 \<le> delay \<and> delay \<le> 2147483647")
  case True
  then have "1 \<le> \<lfloor>delay\<rfloor>" by (simp add: le_floor_iff)
  with True show ?thesis by (simp add: setTimeout_delay_def)
next
  case False
  then show ?thesis by (auto simp add: setTimeout_delay_def)
qed

lemma sleep_clock: "clock w < clock (sleep delay w)"
  by (simp add: sleep_def setTimeout_delay_positive)

termination waitForMongoReady_loop
proof (relation "measure (\<lambda>(P, c, name, rootUsername, rootPwd, timeout, startTime, delay, w).
                   startTime + timeout - clock w)", goal_cases)
  case 1
  show ?case by simp
next
  case (2 P c name rootUsername rootPwd timeout startTime delay w)
  have "clock w < clock (sleep delay (snd (waitForMongoReady_try P c name rootUsername rootPwd w)))"
    using waitForMongoReady_try_clock [of w P c name rootUsername rootPwd]
      sleep_clock [of "snd (waitForMongoReady_try P c name rootUsername rootPwd w)" delay]
    by simp
  with 2 show ?case by simp
qed

definition waitForMongoReady ::
  "'r platform \<Rightarrow> SSHClient \<Rightarrow> string \<Rightarrow> string \<Rightarrow> string \<Rightarrow> nat \<Rightarrow> 'r world
     \<Rightarrow> (error + unit) \<times> 'r world" where
  "waitForMongoReady P c name rootUsername rootPwd timeout w =
     waitForMongoReady_loop P c name rootUsername rootPwd timeout (clock w) 500 w"

section \<open>Reconciliation\<close>



section \<open>Sample data\<close>

text \<open>An instance record as the orchestrator writes it, for the concrete scenarios below.\<close>

definition sample_instance :: "int \<Rightarrow> string \<Rightarrow> InstanceMetadata" where
  "sample_instance p c =
     \<lparr>port = p, dbName = ''app_dev'', username = ''dbx_dev'', password = ''app-secret'',
      rootPassword = ''root-secret'', volume = c, containerName = c,
      createdAt = ''2025-01-01T00:00:00.000Z'', lastBackup = None\<rparr>"

text \<open>
  A platform for the scenarios: the JSON library knows the listed documents (and, like
  \<open>JSON.parse\<close>, ignores white space around a text), the file system refuses the calls
  \<open>refused\<close> holds of, and the managed host, which counts the requests it has served,
  answers the \<open>n\<close>-th of them as \<open>connects\<close> and \<open>answers\<close> say.
\<close>

definition sample_platform ::
  "(string \<times> json) list \<Rightarrow> (fs_call \<Rightarrow> bool) \<Rightarrow> (nat \<Rightarrow> connect_outcome)
     \<Rightarrow> (string \<Rightarrow> nat \<Rightarrow> (nat \<times> stream_event) list) \<Rightarrow> nat platform" where
  "sample_platform docs refused connects answers =
     \<lparr>JSON_parse = (\<lambda>text. map_of docs (trim text)),
      JSON_stringify = (\<lambda>j. case find (\<lambda>(text, j'). j' = j) docs of
                               Some (text, j') \<Rightarrow> text | None \<Rightarrow> ''null''),
      fs_fails = refused,
      ssh2_connect = (\<lambda>r. (connects r, Suc r)),
      ssh2_exec = (\<lambda>command r. (ExecEvents (answers command r), Suc r))\<rparr>"

definition sample_world :: "(path \<times> string) list \<Rightarrow> nat world" where
  "sample_world texts =
     \<lparr>files = map_of (map (\<lambda>(p, text). (p, (text, 384))) texts), dirs = Map.empty,
      vps = 0, clock = 0, timers = []\<rparr>"

definition text_empty_state :: string where
  \<open>text_empty_state = ''{"instances": {}}''\<close>

definition text_sample_state :: string where
  \<open>text_sample_state = ''{"instances": {"app/dev": {"port": 27018}}}''\<close>

definition sample_state :: DbxState where
  "sample_state = \<lparr>instances = [(''app/dev'', sample_instance 27018 ''dbx_app_dev'')]\<rparr>"

definition sample_docs :: "(string \<times> json) list" where
  "sample_docs = [(text_empty_state, state_toJSON createEmptyState),
                  (text_sample_state, state_toJSON sample_state)]"

definition text_cut_short :: string where
  \<open>text_cut_short = ''{"instances": {"app/dev": {"port": 270''\<close>

definition sample_config :: SSHConfig where
  "sample_config = \<lparr>host = ''vps.example.com'', privateKeyPath = ''/home/me/.ssh/id_rsa'',
                     connectTimeout = Absent, execTimeout = Absent\<rparr>"

definition sample_client :: SSHClient where
  "sample_client = (new_SSHClient sample_config)\<lparr>client := True, connected := True\<rparr>"

definition key_file :: "(path \<times> string) list" where
  "key_file = [(''/home/me/.ssh/id_rsa'', ''PRIVATE KEY'')]"

definition ok_answer :: "(nat \<times> stream_event) list" where
  "ok_answer = [(3, StdoutData ''ok''), (4, StreamClose (Some 0))]"

definition world_at :: "nat \<Rightarrow> nat \<Rightarrow> rat list \<Rightarrow> nat world" where
  "world_at served time slept = (sample_world key_file)\<lparr>vps := served, clock := time, timers := slept\<rparr>"

definition crashed_container :: "nat platform" where
  "crashed_container =
     sample_platform [] (\<lambda>call. False) (\<lambda>n. ReadyEvent 5)
       (\<lambda>command n. if command = docker_ps_command ''dbx_app_dev'' then [(20, StreamClose (Some 0))]
                      else [(30, StderrData ''Fatal: data directory not writable''),
                            (31, StreamClose (Some 1))])"


section \<open>Properties of the port allocator\<close>

lemma validatePort_in_range:
  "MIN_PORT \<le> p \<Longrightarrow> p \<le> MAX_PORT \<Longrightarrow>
     validatePort p = Inr (if p \<ge> HIGH_PORT_WARNING then [WarnPortNearMaximum p] else [])"
  by (simp add: validatePort_def)

lemma findNextPort_loop_spec:
  "MIN_PORT \<le> p \<Longrightarrow>
   (case findNextPort_loop used b p of
      Inl e \<Rightarrow> e = PortAllocationError (NoAvailablePorts b) \<and> (\<forall>q. p \<le> q \<and> q \<le> MAX_PORT \<longrightarrow> q \<in> used)
    | Inr (r, printed) \<Rightarrow>
        p \<le> r \<and> r \<le> MAX_PORT \<and> r \<notin> used \<and> (\<forall>q. p \<le> q \<and> q < r \<longrightarrow> q \<in> used) \<and>
        printed = (if r \<ge> HIGH_PORT_WARNING then [WarnPortNearMaximum r] else [])
                    @ [LogAllocatedPort r b])"
proof (induction used b p rule: findNextPort_loop.induct)
  case (1 used b p)
  show ?case
  proof (cases "p \<le> MAX_PORT")
    case False
    then show ?thesis by (subst findNextPort_loop.simps) auto
  next
    case inrange: True
    show ?thesis
    proof (cases "p \<in> used")
      case False
      with inrange "1.prems" show ?thesis
        by (subst findNextPort_loop.simps) (auto simp add: validatePort_in_range)
    next
      case True
      have step: "findNextPort_loop used b p = findNextPort_loop used b (p + 1)"
        using inrange True by (subst findNextPort_loop.simps) simp
      have ih: "case findNextPort_loop used b (p + 1) of
          Inl e \<Rightarrow> e = PortAllocationError (NoAvailablePorts b) \<and> (\<forall>q. p + 1 \<le> q \<and> q \<le> MAX_PORT \<longrightarrow> q \<in> used)
        | Inr (r, printed) \<Rightarrow>
            p + 1 \<le> r \<and> r \<le> MAX_PORT \<and> r \<notin> used \<and> (\<forall>q. p + 1 \<le> q \<and> q < r \<longrightarrow> q \<in> used) \<and>
            printed = (if r \<ge> HIGH_PORT_WARNING then [WarnPortNearMaximum r] else [])
                        @ [LogAllocatedPort r b]"
        using "1.IH" [OF inrange] True "1.prems" by simp
      have below: "\<And>q. p \<le> q \<Longrightarrow> q = p \<or> p + 1 \<le> q" by arith
      show ?thesis
      proof (cases "findNextPort_loop used b (p + 1)")
        case (Inl e)
        with ih step True show ?thesis
          by (auto dest: below)
      next
        case (Inr rp)
        obtain r printed where rp: "rp = (r, printed)" by (cases rp)
        with Inr ih step True show ?thesis
          by (auto dest: below)
      qed
    qed
  qed
qed

text \<open>
  C2. For every base port in [1024, 65535] and every pair of state collections,
  \<open>findNextPort\<close> returns the smallest port at or above the base port that neither
  collection records, and it fails (with the error that no port is available) exactly when
  every port from the base port to 65535 is recorded in the union. In particular a free base
  port is returned itself, and when the union occupies the base port and the \<open>k\<close> ports
  after it but not the next one, that next one is returned. A port at or above 65500 is
  allocated all the same; the only difference is the warning among the printed lines.
\<close>

theorem findNextPort_smallest_free:
  assumes lo: "MIN_PORT \<le> basePort" and hi: "basePort \<le> MAX_PORT"
    and used: "used = (\<lambda>(k, m). port m) ` (set (instances localState) \<union> set (instances remoteState))"
  shows "((\<exists>p printed. findNextPort localState basePort (Some remoteState) = Inr (p, printed)
            \<and> basePort \<le> p \<and> p \<le> MAX_PORT \<and> p \<notin> used
            \<and> (\<forall>q. basePort \<le> q \<and> q < p \<longrightarrow> q \<in> used)
            \<and> (WarnPortNearMaximum p \<in> set printed \<longleftrightarrow> HIGH_PORT_WARNING \<le> p))
         \<or> (findNextPort localState basePort (Some remoteState) = Inl (PortAllocationError (NoAvailablePorts basePort))
            \<and> (\<forall>q. basePort \<le> q \<and> q \<le> MAX_PORT \<longrightarrow> q \<in> used)))
       \<and> ((\<exists>e. findNextPort localState basePort (Some remoteState) = Inl e)
           \<longleftrightarrow> (\<forall>q. basePort \<le> q \<and> q \<le> MAX_PORT \<longrightarrow> q \<in> used))
       \<and> (basePort \<notin> used \<longrightarrow>
           (\<exists>printed. findNextPort localState basePort (Some remoteState) = Inr (basePort, printed)))
       \<and> (0 \<le> k \<and> basePort + k + 1 \<le> MAX_PORT
           \<and> (\<forall>q. basePort \<le> q \<and> q \<le> basePort + k \<longrightarrow> q \<in> used)
           \<and> basePort + k + 1 \<notin> used \<longrightarrow>
           (\<exists>printed. findNextPort localState basePort (Some remoteState)
                        = Inr (basePort + k + 1, printed)))"
proof -
  have U: "getAllUsedPorts localState (Some remoteState) = used"
    unfolding used getAllUsedPorts_def getUsedPortsFromLocalState_def by (simp add: image_Un)
  have vp: "validatePort basePort
              = Inr (if basePort \<ge> HIGH_PORT_WARNING then [WarnPortNearMaximum basePort] else [])"
    using lo hi by (rule validatePort_in_range)
  note spec = findNextPort_loop_spec [OF lo, where used = used and b = basePort]
  have main: "(\<exists>p printed. findNextPort localState basePort (Some remoteState) = Inr (p, printed)
            \<and> basePort \<le> p \<and> p \<le> MAX_PORT \<and> p \<notin> used
            \<and> (\<forall>q. basePort \<le> q \<and> q < p \<longrightarrow> q \<in> used)
            \<and> (WarnPortNearMaximum p \<in> set printed \<longleftrightarrow> HIGH_PORT_WARNING \<le> p))
         \<or> (findNextPort localState basePort (Some remoteState) = Inl (PortAllocationError (NoAvailablePorts basePort))
            \<and> (\<forall>q. basePort \<le> q \<and> q \<le> MAX_PORT \<longrightarrow> q \<in> used))"
  proof (cases "findNextPort_loop used basePort basePort")
    case (Inl e)
    with spec show ?thesis
      by (simp add: findNextPort_def U vp)
  next
    case (Inr rp)
    obtain r printed where rp: "rp = (r, printed)" by (cases rp)
    from spec Inr rp have facts: "basePort \<le> r" "r \<le> MAX_PORT" "r \<notin> used"
        "\<forall>q. basePort \<le> q \<and> q < r \<longrightarrow> q \<in> used"
        "printed = (if r \<ge> HIGH_PORT_WARNING then [WarnPortNearMaximum r] else [])
                    @ [LogAllocatedPort r basePort]"
      by simp_all
    have res: "findNextPort localState basePort (Some remoteState)
                 = Inr (r, (if basePort \<ge> HIGH_PORT_WARNING then [WarnPortNearMaximum basePort] else [])
                            @ printed)"
      using Inr rp by (simp add: findNextPort_def U vp)
    have warn: "WarnPortNearMaximum r
                  \<in> set ((if basePort \<ge> HIGH_PORT_WARNING then [WarnPortNearMaximum basePort] else [])
                            @ printed) \<longleftrightarrow> HIGH_PORT_WARNING \<le> r"
      using facts(1,5) by auto
    show ?thesis
      using res facts(1-4) warn by blast
  qed
  have iff: "(\<exists>e. findNextPort localState basePort (Some remoteState) = Inl e)
           \<longleftrightarrow> (\<forall>q. basePort \<le> q \<and> q \<le> MAX_PORT \<longrightarrow> q \<in> used)"
    using main by (metis Inl_Inr_False)
  have free_base: "\<exists>printed. findNextPort localState basePort (Some remoteState) = Inr (basePort, printed)"
    if "basePort \<notin> used"
  proof -
    from main that hi obtain p printed where
      p: "findNextPort localState basePort (Some remoteState) = Inr (p, printed)"
         "basePort \<le> p" "\<forall>q. basePort \<le> q \<and> q < p \<longrightarrow> q \<in> used"
      by blast
    have "p = basePort"
    proof (rule ccontr)
      assume "p \<noteq> basePort"
      with p(2) have "basePort < p" by simp
      with p(3) that show False by blast
    qed
    with p(1) show ?thesis by blast
  qed
  have run: "\<exists>printed. findNextPort localState basePort (Some remoteState)
                        = Inr (basePort + k + 1, printed)"
    if k: "0 \<le> k" and top: "basePort + k + 1 \<le> MAX_PORT"
      and occ: "\<forall>q. basePort \<le> q \<and> q \<le> basePort + k \<longrightarrow> q \<in> used"
      and free: "basePort + k + 1 \<notin> used"
  proof -
    have "basePort \<le> basePort + k + 1" using k by simp
    with free top have "\<not> (\<forall>q. basePort \<le> q \<and> q \<le> MAX_PORT \<longrightarrow> q \<in> used)"
      by blast
    with main obtain p printed where
      p: "findNextPort localState basePort (Some remoteState) = Inr (p, printed)"
         "basePort \<le> p" "p \<notin> used" "\<forall>q. basePort \<le> q \<and> q < p \<longrightarrow> q \<in> used"
      by blast
    have "\<not> p \<le> basePort + k" using occ p(2,3) by blast
    moreover have "\<not> basePort + k + 1 < p"
    proof
      assume "basePort + k + 1 < p"
      moreover have "basePort \<le> basePort + k + 1" using k by simp
      ultimately have "basePort + k + 1 \<in> used" using p(4) by blast
      with free show False ..
    qed
    ultimately have "p = basePort + k + 1" by arith
    with p(1) show ?thesis by blast
  qed
  show ?thesis
    using main iff free_base run by blast
qed

theorem findNextPort_smallest_free_witness:
  "MIN_PORT \<le> 27018 \<and> 27018 \<le> MAX_PORT
   \<and> (\<exists>printed. findNextPort \<lparr>instances = [(''app/dev'', sample_instance 27018 ''dbx_app_dev'')]\<rparr>
         27018 (Some \<lparr>instances = [(''app/staging'', sample_instance 27019 ''dbx_app_staging'')]\<rparr>)
       = Inr (27020, printed))"
proof -
  have lo: "MIN_PORT \<le> 27018" and hi: "27018 \<le> MAX_PORT"
    by (simp_all add: MIN_PORT_def MAX_PORT_def)
  have used: "{27018, 27019} = (\<lambda>(k, m). port m) `
      (set (instances \<lparr>instances = [(''app/dev'', sample_instance 27018 ''dbx_app_dev'')]\<rparr>)
       \<union> set (instances \<lparr>instances = [(''app/staging'', sample_instance 27019 ''dbx_app_staging'')]\<rparr>))"
    by (auto simp add: sample_instance_def)
  have occ: "\<forall>q::int. 27018 \<le> q \<and> q \<le> 27019 \<longrightarrow> q = 27018 \<or> q = 27019"
    by arith
  from findNextPort_smallest_free [OF lo hi used, of 1] occ lo hi show ?thesis
    by (simp add: MAX_PORT_def)
qed

section \<open>Properties of state validation\<close>

lemma validateInstanceKey_cases:
  "validateInstanceKey key = Inr () \<or> validateInstanceKey key = Inl (StateValidationError (InvalidInstanceKeyFormat key))"
  by (simp add: validateInstanceKey_def Let_def)

lemma validateInstance_Inr:
  assumes "validateInstance key val = Inr m"
  shows "validateInstanceKey key = Inr () \<and> \<not> falsy val \<and> typeof_object val
         \<and> (\<forall>field \<in> set requiredFields. js_prop val field \<noteq> None)
         \<and> typeof_number (js_prop val ''port'')
         \<and> (\<forall>field \<in> set stringFields. typeof_string (js_prop val field))
         \<and> (js_prop val ''lastBackup'' = None \<or> typeof_string (js_prop val ''lastBackup''))
         \<and> m = asInstanceMetadata val"
  using assms validateInstanceKey_cases [of key]
  unfolding validateInstance_def
  by (auto split: sum.splits if_splits option.splits simp add: find_None_iff)

lemma validateInstance_Inl:
  "validateInstance key val = Inl e \<Longrightarrow> \<exists>m. e = StateValidationError m"
  using validateInstanceKey_cases [of key]
  unfolding validateInstance_def
  by (auto split: sum.splits if_splits option.splits)

lemma validateInstances_Inr:
  "validateInstances es = Inr ms \<Longrightarrow>
     ms = map (\<lambda>(key, val). (key, asInstanceMetadata val)) es
     \<and> (\<forall>(key, val) \<in> set es. validateInstance key val = Inr (asInstanceMetadata val))"
proof (induction es arbitrary: ms)
  case Nil
  then show ?case by simp
next
  case (Cons kv es)
  obtain key val where kv: "kv = (key, val)" by (cases kv)
  from Cons.prems kv obtain m ms' where
    m: "validateInstance key val = Inr m" and ms': "validateInstances es = Inr ms'"
    and ms: "ms = (key, m) # ms'"
    by (auto split: sum.splits)
  from validateInstance_Inr [OF m] have "m = asInstanceMetadata val" by simp
  with Cons.IH [OF ms'] m ms kv show ?case by simp
qed

lemma validateInstances_Inl:
  "validateInstances es = Inl e \<Longrightarrow> \<exists>m. e = StateValidationError m"
proof (induction es)
  case Nil
  then show ?case by simp
next
  case (Cons kv es)
  obtain key val where kv: "kv = (key, val)" by (cases kv)
  with Cons show ?case
    by (auto split: sum.splits dest: validateInstance_Inl)
qed

lemma validateState_Inl:
  "validateState state = Inl e \<Longrightarrow> \<exists>m. e = StateValidationError m"
  unfolding validateState_def
  by (auto split: if_splits option.splits sum.splits dest: validateInstances_Inl)

lemma validateState_Inr:
  assumes "validateState state = Inr s"
  shows "\<exists>insts. js_prop state ''instances'' = Some insts \<and> \<not> falsy insts \<and> typeof_object insts
           \<and> validateInstances (Object_entries insts) = Inr (instances s)"
  using assms unfolding validateState_def
  by (auto split: if_splits option.splits sum.splits)


text \<open>
  C9, as stated, fails: a collection whose record has port 80 and an empty database name
  passes \<open>validateState\<close>, and the record returned is not valid as the data model defines it.
\<close>

theorem validateState_accepts_low_port_and_empty_name:
  "validateState
     (JObj [(''instances'', JObj [(''app/dev'',
        JObj [(''port'', JNum 80), (''dbName'', JStr []), (''username'', JStr ''dbx_dev''),
              (''password'', JStr ''app-secret''), (''rootPassword'', JStr ''root-secret''),
              (''volume'', JStr ''dbx_app_dev''), (''containerName'', JStr ''dbx_app_dev''),
              (''createdAt'', JStr ''2025-01-01T00:00:00.000Z'')])])])
   = Inr \<lparr>instances = [(''app/dev'',
        \<lparr>port = 80, dbName = [], username = ''dbx_dev'', password = ''app-secret'',
         rootPassword = ''root-secret'', volume = ''dbx_app_dev'', containerName = ''dbx_app_dev'',
         createdAt = ''2025-01-01T00:00:00.000Z'', lastBackup = None\<rparr>)]\<rparr>
   \<and> \<not> InstanceRecord_fully_valid
        \<lparr>port = 80, dbName = [], username = ''dbx_dev'', password = ''app-secret'',
         rootPassword = ''root-secret'', volume = ''dbx_app_dev'', containerName = ''dbx_app_dev'',
         createdAt = ''2025-01-01T00:00:00.000Z'', lastBackup = None\<rparr>"
  by (simp add: validateState_def validateInstance_def validateInstanceKey_def requiredFields_def
        stringFields_def asInstanceMetadata_def InstanceRecord_fully_valid_def)

text \<open>
  C9, amended. Every instance record of a collection that passes \<open>validateState\<close> stands
  under a key of the form project/env, is an object with every required field present, has
  a number as its port and strings as its seven string fields, and has a string as its last
  backup when it has one. Validation checks neither that a string is non-empty nor that the
  port lies within 1024 to 65535.
\<close>

theorem validateState_checks_presence_and_types:
  assumes "validateState state = Inr s"
  shows "\<exists>insts. js_prop state ''instances'' = Some insts
           \<and> instances s = map (\<lambda>(key, val). (key, asInstanceMetadata val)) (Object_entries insts)
           \<and> (\<forall>(key, val) \<in> set (Object_entries insts).
                 validateInstanceKey key = Inr () \<and> \<not> falsy val \<and> typeof_object val
                 \<and> (\<forall>field \<in> set requiredFields. js_prop val field \<noteq> None)
                 \<and> typeof_number (js_prop val ''port'')
                 \<and> (\<forall>field \<in> set stringFields. typeof_string (js_prop val field))
                 \<and> (js_prop val ''lastBackup'' = None \<or> typeof_string (js_prop val ''lastBackup'')))"
proof -
  from validateState_Inr [OF assms] obtain insts where
    insts: "js_prop state ''instances'' = Some insts"
    and all: "validateInstances (Object_entries insts) = Inr (instances s)"
    by blast
  from validateInstances_Inr [OF all] have
    m: "instances s = map (\<lambda>(key, val). (key, asInstanceMetadata val)) (Object_entries insts)"
    and each: "\<forall>(key, val) \<in> set (Object_entries insts).
                 validateInstance key val = Inr (asInstanceMetadata val)"
    by simp_all
  have "\<forall>(key, val) \<in> set (Object_entries insts).
                 validateInstanceKey key = Inr () \<and> \<not> falsy val \<and> typeof_object val
                 \<and> (\<forall>field \<in> set requiredFields. js_prop val field \<noteq> None)
                 \<and> typeof_number (js_prop val ''port'')
                 \<and> (\<forall>field \<in> set stringFields. typeof_string (js_prop val field))
                 \<and> (js_prop val ''lastBackup'' = None \<or> typeof_string (js_prop val ''lastBackup''))"
  proof (clarify)
    fix key val
    assume "(key, val) \<in> set (Object_entries insts)"
    with each have "validateInstance key val = Inr (asInstanceMetadata val)" by blast
    from validateInstance_Inr [OF this]
    show "validateInstanceKey key = Inr () \<and> \<not> falsy val \<and> typeof_object val
                 \<and> (\<forall>field \<in> set requiredFields. js_prop val field \<noteq> None)
                 \<and> typeof_number (js_prop val ''port'')
                 \<and> (\<forall>field \<in> set stringFields. typeof_string (js_prop val field))
                 \<and> (js_prop val ''lastBackup'' = None \<or> typeof_string (js_prop val ''lastBackup''))"
      by blast
  qed
  with insts m show ?thesis by blast
qed

theorem validateState_checks_presence_and_types_witness:
  "validateState (state_toJSON \<lparr>instances = [(''app/dev'', sample_instance 27018 ''dbx_app_dev'')]\<rparr>)
     = Inr \<lparr>instances = [(''app/dev'', sample_instance 27018 ''dbx_app_dev'')]\<rparr>
   \<and> (\<exists>insts. js_prop (state_toJSON \<lparr>instances = [(''app/dev'', sample_instance 27018 ''dbx_app_dev'')]\<rparr>)
                  ''instances'' = Some insts
          \<and> typeof_number (js_prop (snd (hd (Object_entries insts))) ''port''))"
proof -
  have v: "validateState (state_toJSON \<lparr>instances = [(''app/dev'', sample_instance 27018 ''dbx_app_dev'')]\<rparr>)
     = Inr \<lparr>instances = [(''app/dev'', sample_instance 27018 ''dbx_app_dev'')]\<rparr>"
    by (simp add: validateState_def validateInstance_def validateInstanceKey_def requiredFields_def
        stringFields_def asInstanceMetadata_def state_toJSON_def instance_toJSON_def sample_instance_def)
  from validateState_checks_presence_and_types [OF v] v show ?thesis
    by (auto simp add: state_toJSON_def)
qed

section \<open>Properties of the local state store\<close>

lemma validateInstances_first_invalid:
  assumes "\<forall>(k, v) \<in> set before. \<exists>m. validateInstance k v = Inr m"
    and "validateInstance key val = Inl e"
  shows "validateInstances (before @ (key, val) # after) = Inl e"
  using assms(1)
proof (induction before)
  case Nil
  with assms(2) show ?case by simp
next
  case (Cons kv before)
  obtain k v where kv: "kv = (k, v)" by (cases kv)
  from Cons.prems kv obtain m where "validateInstance k v = Inr m" by auto
  moreover from Cons have "validateInstances (before @ (key, val) # after) = Inl e" by simp
  ultimately show ?case using kv by simp
qed

lemma validateInstance_missing_field:
  assumes "validateInstanceKey key = Inr ()" "\<not> falsy val" "typeof_object val"
    and "find (\<lambda>f. js_prop val f = None) requiredFields = Some field"
  shows "validateInstance key val = Inl (StateValidationError (MissingRequiredField field key))"
  using assms by (simp add: validateInstance_def)

text \<open>
  What \<open>readState\<close> does when the operating system does not refuse \<open>access\<close> to the state
  file: it returns the empty collection when the file is absent and raises a validation
  error when the file is present and cannot be read, does not parse or fails
  \<open>validateState\<close>; the error of a record that lacks a required field names the field.
\<close>

lemma readState_when_access_succeeds:
  assumes path: "statePath = join (join cwd STATE_DIR_NAME) STATE_FILE_NAME"
    and access: "\<not> fs_fails P (Access statePath)"
  shows "(files w statePath = None \<and> dirs w statePath = None \<longrightarrow>
            readState P cwd w = Inr createEmptyState)
       \<and> (files w statePath = Some (raw, m) \<and> fs_fails P (ReadFile statePath) \<longrightarrow>
            readState P cwd w = Inl (StateValidationError (FailedToReadStateFile statePath)))
       \<and> (files w statePath = Some (raw, m) \<and> \<not> fs_fails P (ReadFile statePath)
            \<and> JSON_parse P raw = None \<longrightarrow>
            readState P cwd w = Inl (StateValidationError (FailedToParseStateFile statePath)))
       \<and> (files w statePath = Some (raw, m) \<and> \<not> fs_fails P (ReadFile statePath)
            \<and> JSON_parse P raw = Some state \<and> validateState state = Inl e \<longrightarrow>
            readState P cwd w = Inl e \<and> (\<exists>msg. e = StateValidationError msg))
       \<and> (files w statePath = Some (raw, m) \<and> \<not> fs_fails P (ReadFile statePath)
            \<and> JSON_parse P raw = Some state
            \<and> \<not> falsy state \<and> typeof_object state \<and> js_prop state ''instances'' = Some insts
            \<and> \<not> falsy insts \<and> typeof_object insts
            \<and> Object_entries insts = before @ (key, val) # after
            \<and> (\<forall>(k, v) \<in> set before. \<exists>valid. validateInstance k v = Inr valid)
            \<and> validateInstanceKey key = Inr () \<and> \<not> falsy val \<and> typeof_object val
            \<and> find (\<lambda>f. js_prop val f = None) requiredFields = Some field \<longrightarrow>
            readState P cwd w = Inl (StateValidationError (MissingRequiredField field key)))"
proof (intro conjI impI)
  assume "files w statePath = None \<and> dirs w statePath = None"
  with access show "readState P cwd w = Inr createEmptyState"
    by (simp add: readState_def Let_def fs_access_def path)
next
  assume "files w statePath = Some (raw, m) \<and> fs_fails P (ReadFile statePath)"
  with access show "readState P cwd w = Inl (StateValidationError (FailedToReadStateFile statePath))"
    by (simp add: readState_def Let_def fs_access_def fs_readFile_def path)
next
  assume "files w statePath = Some (raw, m) \<and> \<not> fs_fails P (ReadFile statePath)
            \<and> JSON_parse P raw = None"
  with access show "readState P cwd w = Inl (StateValidationError (FailedToParseStateFile statePath))"
    by (simp add: readState_def Let_def fs_access_def fs_readFile_def path)
next
  assume a: "files w statePath = Some (raw, m) \<and> \<not> fs_fails P (ReadFile statePath)
            \<and> JSON_parse P raw = Some state \<and> validateState state = Inl e"
  with access show "readState P cwd w = Inl e"
    by (simp add: readState_def Let_def fs_access_def fs_readFile_def path)
  from a show "\<exists>msg. e = StateValidationError msg"
    by (blast dest: validateState_Inl)
next
  assume a: "files w statePath = Some (raw, m) \<and> \<not> fs_fails P (ReadFile statePath)
            \<and> JSON_parse P raw = Some state
            \<and> \<not> falsy state \<and> typeof_object state \<and> js_prop state ''instances'' = Some insts
            \<and> \<not> falsy insts \<and> typeof_object insts
            \<and> Object_entries insts = before @ (key, val) # after
            \<and> (\<forall>(k, v) \<in> set before. \<exists>valid. validateInstance k v = Inr valid)
            \<and> validateInstanceKey key = Inr () \<and> \<not> falsy val \<and> typeof_object val
            \<and> find (\<lambda>f. js_prop val f = None) requiredFields = Some field"
  then have "validateInstance key val = Inl (StateValidationError (MissingRequiredField field key))"
    by (intro validateInstance_missing_field) simp_all
  with a have "validateInstances (Object_entries insts)
                 = Inl (StateValidationError (MissingRequiredField field key))"
    by (simp add: validateInstances_first_invalid)
  with a have "validateState state = Inl (StateValidationError (MissingRequiredField field key))"
    by (simp add: validateState_def)
  with a access show "readState P cwd w = Inl (StateValidationError (MissingRequiredField field key))"
    by (simp add: readState_def Let_def fs_access_def fs_readFile_def path)
qed

text \<open>
  C7, at the failing input. The state file is present and its text does not parse. Read
  with \<open>access\<close> granted, it raises the validation error the claim asks for. When the
  operating system refuses \<open>access\<close> to it (the process may not search the state directory),
  the handler around \<open>access\<close>, written for a file that does not exist, takes every failure
  for absence: \<open>readState\<close> returns the empty collection and the corrupt file goes unseen.
\<close>

theorem readState_refused_access_reads_corrupt_file_as_empty:
  "files (sample_world [(''/work/.dbx/state.json'', text_cut_short)]) ''/work/.dbx/state.json''
     = Some (text_cut_short, 384)
   \<and> JSON_parse (sample_platform [] (\<lambda>call. False) (\<lambda>n. NoEvent) (\<lambda>command n. []))
         text_cut_short = None
   \<and> readState (sample_platform [] (\<lambda>call. False) (\<lambda>n. NoEvent) (\<lambda>command n. []))
         ''/work'' (sample_world [(''/work/.dbx/state.json'', text_cut_short)])
     = Inl (StateValidationError (FailedToParseStateFile ''/work/.dbx/state.json''))
   \<and> readState (sample_platform [] (\<lambda>call. call = Access ''/work/.dbx/state.json'')
                   (\<lambda>n. NoEvent) (\<lambda>command n. []))
         ''/work'' (sample_world [(''/work/.dbx/state.json'', text_cut_short)])
     = Inr createEmptyState"
  by (simp add: readState_def Let_def fs_access_def fs_readFile_def sample_platform_def
        sample_world_def join_def STATE_DIR_NAME_def STATE_FILE_NAME_def)

lemma asInstanceMetadata_instance_toJSON: "asInstanceMetadata (instance_toJSON m) = m"
  by (cases m) (simp add: asInstanceMetadata_def instance_toJSON_def split: option.splits)

lemma validateInstance_instance_toJSON:
  assumes "validateInstanceKey key = Inr ()"
  shows "validateInstance key (instance_toJSON m) = Inr m"
proof -
  have "validateInstance key (instance_toJSON m) = Inr (asInstanceMetadata (instance_toJSON m))"
    using assms
    by (simp add: validateInstance_def instance_toJSON_def requiredFields_def stringFields_def
          split: option.splits)
  then show ?thesis by (simp add: asInstanceMetadata_instance_toJSON)
qed

lemma validateInstances_toJSON:
  "\<forall>(key, m) \<in> set xs. validateInstanceKey key = Inr () \<Longrightarrow>
     validateInstances (map (\<lambda>(key, m). (key, instance_toJSON m)) xs) = Inr xs"
  by (induction xs) (auto simp add: validateInstance_instance_toJSON)

lemma validateState_state_toJSON:
  fixes s :: DbxState
  assumes "\<forall>(key, m) \<in> set (instances s). validateInstanceKey key = Inr ()"
  shows "validateState (state_toJSON s) = Inr s"
  using validateInstances_toJSON [OF assms]
  by (simp add: validateState_def state_toJSON_def)

lemma join_neq: "join d n \<noteq> d"
  by (simp add: join_def)

lemma fs_mkdir_Some:
  assumes "fs_mkdir P p m w = Some w'"
  shows "files w' = files w \<and> vps w' = vps w \<and> clock w' = clock w \<and> timers w' = timers w
         \<and> dirs w' p \<noteq> None \<and> (\<forall>q. q \<noteq> p \<longrightarrow> dirs w' q = dirs w q)"
  using assms by (auto simp add: fs_mkdir_def split: if_splits)

lemma fs_chmod_Some:
  assumes "fs_chmod P p m w = Some w'"
  shows "vps w' = vps w \<and> clock w' = clock w \<and> timers w' = timers w
         \<and> (\<forall>q. map_option fst (files w' q) = map_option fst (files w q))
         \<and> (\<forall>q. dirs w' q = None \<longleftrightarrow> dirs w q = None)"
  using assms by (auto simp add: fs_chmod_def split: if_splits option.splits)

lemma fs_writeFile_Some:
  assumes "fs_writeFile P p c m w = Some w'"
  shows "vps w' = vps w \<and> clock w' = clock w \<and> timers w' = timers w \<and> dirs w' = dirs w
         \<and> (\<exists>m'. files w' p = Some (c, m')) \<and> (\<forall>q. q \<noteq> p \<longrightarrow> files w' q = files w q)"
  using assms by (auto simp add: fs_writeFile_def split: if_splits option.splits)

lemma fs_rename_Some:
  assumes "fs_rename P a b w = Some w'"
  shows "vps w' = vps w \<and> clock w' = clock w \<and> timers w' = timers w \<and> dirs w' = dirs w
         \<and> files w a \<noteq> None \<and> files w' b = files w a"
  using assms by (auto simp add: fs_rename_def split: if_splits option.splits)

lemma writeState_Inr:
  assumes "writeState P s cwd w = (Inr (), w')"
  shows "\<exists>w1 w2 w3 w4.
           fs_mkdir P (join cwd STATE_DIR_NAME) DIR_PERMISSIONS w = Some w1
           \<and> fs_chmod P (join cwd STATE_DIR_NAME) DIR_PERMISSIONS w1 = Some w2
           \<and> fs_writeFile P (join (join cwd STATE_DIR_NAME) (STATE_FILE_NAME @ ''.tmp''))
                 (JSON_stringify P (state_toJSON s) @ ''\<newline>'') FILE_PERMISSIONS w2 = Some w3
           \<and> fs_rename P (join (join cwd STATE_DIR_NAME) (STATE_FILE_NAME @ ''.tmp''))
                 (join (join cwd STATE_DIR_NAME) STATE_FILE_NAME) w3 = Some w4
           \<and> w' = (case fs_chmod P (join (join cwd STATE_DIR_NAME) STATE_FILE_NAME)
                           FILE_PERMISSIONS w4 of None \<Rightarrow> w4 | Some w5 \<Rightarrow> w5)"
  using assms by (auto simp add: writeState_def Let_def split: option.splits)

lemma writeState_rename_error:
  assumes "writeState P s cwd w = (Inl (StateValidationError (FailedToRenameTempStateFile t p)), w')"
  shows "\<exists>w2. fs_writeFile P (join (join cwd STATE_DIR_NAME) (STATE_FILE_NAME @ ''.tmp''))
                 (JSON_stringify P (state_toJSON s) @ ''\<newline>'') FILE_PERMISSIONS w2 = Some w'"
  using assms by (auto simp add: writeState_def Let_def split: option.splits)

lemma writeState_success:
  assumes "writeState P s cwd w = (Inr (), w')"
  shows "(\<exists>m. files w' (join (join cwd STATE_DIR_NAME) STATE_FILE_NAME)
               = Some (JSON_stringify P (state_toJSON s) @ ''\<newline>'', m))
         \<and> vps w' = vps w \<and> clock w' = clock w \<and> timers w' = timers w"
proof -
  let ?path = "join (join cwd STATE_DIR_NAME) STATE_FILE_NAME"
  let ?tmp = "join (join cwd STATE_DIR_NAME) (STATE_FILE_NAME @ ''.tmp'')"
  let ?content = "JSON_stringify P (state_toJSON s) @ ''\<newline>''"
  from writeState_Inr [OF assms] obtain w1 w2 w3 w4 where
    mk: "fs_mkdir P (join cwd STATE_DIR_NAME) DIR_PERMISSIONS w = Some w1"
    and ch: "fs_chmod P (join cwd STATE_DIR_NAME) DIR_PERMISSIONS w1 = Some w2"
    and wr: "fs_writeFile P ?tmp ?content FILE_PERMISSIONS w2 = Some w3"
    and rn: "fs_rename P ?tmp ?path w3 = Some w4"
    and w': "w' = (case fs_chmod P ?path FILE_PERMISSIONS w4 of None \<Rightarrow> w4 | Some w5 \<Rightarrow> w5)"
    by blast
  from fs_writeFile_Some [OF wr] obtain m where "files w3 ?tmp = Some (?content, m)" by blast
  with fs_rename_Some [OF rn] have at4: "files w4 ?path = Some (?content, m)" by simp
  have same: "vps w4 = vps w \<and> clock w4 = clock w \<and> timers w4 = timers w"
    using fs_mkdir_Some [OF mk] fs_chmod_Some [OF ch] fs_writeFile_Some [OF wr] fs_rename_Some [OF rn]
    by simp
  show ?thesis
  proof (cases "fs_chmod P ?path FILE_PERMISSIONS w4")
    case None
    with w' at4 same show ?thesis by simp
  next
    case (Some w5)
    from fs_chmod_Some [OF Some] at4 have "map_option fst (files w5 ?path) = Some ?content"
      by simp
    then obtain m' where "files w5 ?path = Some (?content, m')"
      by (cases "files w5 ?path") auto
    with Some w' same fs_chmod_Some [OF Some] show ?thesis by simp
  qed
qed

lemma writeState_rename_error_keeps_temp:
  assumes "writeState P s cwd w = (Inl (StateValidationError (FailedToRenameTempStateFile t p)), w')"
  shows "\<exists>m. files w' (join (join cwd STATE_DIR_NAME) (STATE_FILE_NAME @ ''.tmp''))
               = Some (JSON_stringify P (state_toJSON s) @ ''\<newline>'', m)"
  using writeState_rename_error [OF assms] fs_writeFile_Some by blast

lemma writeState_unobstructed:
  assumes quiet: "\<forall>call. \<not> fs_fails P call"
    and "files w (join cwd STATE_DIR_NAME) = None"
    and "dirs w (join (join cwd STATE_DIR_NAME) STATE_FILE_NAME) = None"
    and "dirs w (join (join cwd STATE_DIR_NAME) (STATE_FILE_NAME @ ''.tmp'')) = None"
  shows "\<exists>w'. writeState P s cwd w = (Inr (), w')"
proof -
  let ?dir = "join cwd STATE_DIR_NAME"
  let ?path = "join (join cwd STATE_DIR_NAME) STATE_FILE_NAME"
  let ?tmp = "join (join cwd STATE_DIR_NAME) (STATE_FILE_NAME @ ''.tmp'')"
  let ?content = "JSON_stringify P (state_toJSON s) @ ''\<newline>''"
  have "\<exists>w1. fs_mkdir P ?dir DIR_PERMISSIONS w = Some w1"
    using quiet assms(2) by (cases "dirs w ?dir") (simp_all add: fs_mkdir_def)
  then obtain w1 where mk: "fs_mkdir P ?dir DIR_PERMISSIONS w = Some w1" ..
  note m = fs_mkdir_Some [OF mk]
  have "\<exists>w2. fs_chmod P ?dir DIR_PERMISSIONS w1 = Some w2"
    using quiet m assms(2) by (cases "dirs w1 ?dir") (simp_all add: fs_chmod_def)
  then obtain w2 where ch: "fs_chmod P ?dir DIR_PERMISSIONS w1 = Some w2" ..
  note c = fs_chmod_Some [OF ch]
  have "dirs w2 ?tmp = None" "dirs w2 ?path = None"
    using m c assms(3,4) join_neq [of ?dir] by auto
  then have "\<exists>w3. fs_writeFile P ?tmp ?content FILE_PERMISSIONS w2 = Some w3"
    using quiet by (simp add: fs_writeFile_def)
  then obtain w3 where wr: "fs_writeFile P ?tmp ?content FILE_PERMISSIONS w2 = Some w3" ..
  note f = fs_writeFile_Some [OF wr]
  have "dirs w3 ?path = None" "files w3 ?tmp \<noteq> None"
    using f \<open>dirs w2 ?path = None\<close> by auto
  then have "\<exists>w4. fs_rename P ?tmp ?path w3 = Some w4"
    using quiet by (cases "files w3 ?tmp") (simp_all add: fs_rename_def)
  then obtain w4 where rn: "fs_rename P ?tmp ?path w3 = Some w4" ..
  show ?thesis
    using mk ch wr rn by (simp add: writeState_def Let_def split: option.splits)
qed

lemma readState_of_file:
  assumes "files w (join (join cwd STATE_DIR_NAME) STATE_FILE_NAME) = Some (raw, m)"
    and "\<not> fs_fails P (Access (join (join cwd STATE_DIR_NAME) STATE_FILE_NAME))"
    and "\<not> fs_fails P (ReadFile (join (join cwd STATE_DIR_NAME) STATE_FILE_NAME))"
    and "JSON_parse P raw = Some state"
  shows "readState P cwd w = validateState state"
  using assms by (simp add: readState_def Let_def fs_access_def fs_readFile_def)

lemma writeState_then_readState:
  fixes s :: DbxState
  assumes keys: "\<forall>(key, m) \<in> set (instances s). validateInstanceKey key = Inr ()"
    and json: "JSON_parse P (JSON_stringify P (state_toJSON s) @ ''\<newline>'') = Some (state_toJSON s)"
    and accessible: "\<not> fs_fails P (Access (join (join cwd STATE_DIR_NAME) STATE_FILE_NAME))"
    and readable: "\<not> fs_fails P (ReadFile (join (join cwd STATE_DIR_NAME) STATE_FILE_NAME))"
    and written: "writeState P s cwd w = (Inr (), w')"
  shows "readState P cwd w' = Inr s"
proof -
  from writeState_success [OF written] obtain m where
    "files w' (join (join cwd STATE_DIR_NAME) STATE_FILE_NAME)
       = Some (JSON_stringify P (state_toJSON s) @ ''\<newline>'', m)"
    by blast
  from readState_of_file [OF this accessible readable json] validateState_state_toJSON [OF keys]
  show ?thesis by simp
qed

text \<open>
  C6. For every state collection whose keys have the form project/env, the empty collection
  included, \<open>writeState\<close> followed by \<open>readState\<close> yields the collection written: whenever
  the write returns normally, the read returns the same collection, and the write does
  return normally when the file system refuses no call and nothing stands in the way of the
  state directory and its two files. The JSON library is assumed to parse the text it
  printed for this collection back to the same document, and the operating system to grant
  the read its \<open>access\<close> check and its \<open>readFile\<close> of the state file.
\<close>

theorem writeState_readState_roundtrip:
  fixes s :: DbxState
  assumes keys: "\<forall>(key, m) \<in> set (instances s). validateInstanceKey key = Inr ()"
    and json: "JSON_parse P (JSON_stringify P (state_toJSON s) @ ''\<newline>'') = Some (state_toJSON s)"
    and accessible: "\<not> fs_fails P (Access (join (join cwd STATE_DIR_NAME) STATE_FILE_NAME))"
    and readable: "\<not> fs_fails P (ReadFile (join (join cwd STATE_DIR_NAME) STATE_FILE_NAME))"
  shows "(writeState P s cwd w = (Inr (), w') \<longrightarrow> readState P cwd w' = Inr s)
       \<and> ((\<forall>call. \<not> fs_fails P call) \<and> files w (join cwd STATE_DIR_NAME) = None
            \<and> dirs w (join (join cwd STATE_DIR_NAME) STATE_FILE_NAME) = None
            \<and> dirs w (join (join cwd STATE_DIR_NAME) (STATE_FILE_NAME @ ''.tmp'')) = None \<longrightarrow>
          (\<exists>w''. writeState P s cwd w = (Inr (), w'') \<and> readState P cwd w'' = Inr s))"
proof (intro conjI impI)
  assume "writeState P s cwd w = (Inr (), w')"
  then show "readState P cwd w' = Inr s"
    by (rule writeState_then_readState [OF keys json accessible readable])
next
  assume "(\<forall>call. \<not> fs_fails P call) \<and> files w (join cwd STATE_DIR_NAME) = None
            \<and> dirs w (join (join cwd STATE_DIR_NAME) STATE_FILE_NAME) = None
            \<and> dirs w (join (join cwd STATE_DIR_NAME) (STATE_FILE_NAME @ ''.tmp'')) = None"
  then obtain w'' where "writeState P s cwd w = (Inr (), w'')"
    using writeState_unobstructed [of P w cwd s] by blast
  then show "\<exists>w''. writeState P s cwd w = (Inr (), w'') \<and> readState P cwd w'' = Inr s"
    using writeState_then_readState [OF keys json accessible readable] by blast
qed


lemma sample_stringify_parse:
  "JSON_parse (sample_platform sample_docs refused connects answers)
     (JSON_stringify (sample_platform sample_docs refused connects answers) (state_toJSON sample_state)
        @ ''\<newline>'') = Some (state_toJSON sample_state)"
  "JSON_parse (sample_platform sample_docs refused connects answers)
     (JSON_stringify (sample_platform sample_docs refused connects answers) (state_toJSON createEmptyState)
        @ ''\<newline>'') = Some (state_toJSON createEmptyState)"
  by (simp_all add: sample_platform_def sample_docs_def text_empty_state_def text_sample_state_def
        trim_def is_whitespace_def state_toJSON_def createEmptyState_def sample_state_def)


theorem writeState_readState_roundtrip_witness:
  "JSON_parse (sample_platform sample_docs (\<lambda>call. False) (\<lambda>n. NoEvent) (\<lambda>command n. []))
     (JSON_stringify (sample_platform sample_docs (\<lambda>call. False) (\<lambda>n. NoEvent) (\<lambda>command n. []))
        (state_toJSON sample_state) @ ''\<newline>'') = Some (state_toJSON sample_state)
   \<and> validateInstanceKey ''app/dev'' = Inr ()
   \<and> (\<exists>w'. writeState (sample_platform sample_docs (\<lambda>call. False) (\<lambda>n. NoEvent) (\<lambda>command n. []))
               sample_state ''/work'' (sample_world []) = (Inr (), w')
           \<and> readState (sample_platform sample_docs (\<lambda>call. False) (\<lambda>n. NoEvent) (\<lambda>command n. []))
               ''/work'' w' = Inr sample_state)
   \<and> (\<exists>w'. writeState (sample_platform sample_docs (\<lambda>call. False) (\<lambda>n. NoEvent) (\<lambda>command n. []))
               createEmptyState ''/work'' (sample_world []) = (Inr (), w')
           \<and> readState (sample_platform sample_docs (\<lambda>call. False) (\<lambda>n. NoEvent) (\<lambda>command n. []))
               ''/work'' w' = Inr createEmptyState)"
proof -
  let ?P = "sample_platform sample_docs (\<lambda>call. False) (\<lambda>n. NoEvent) (\<lambda>command n. [])"
  have key: "validateInstanceKey ''app/dev'' = Inr ()"
    by (simp add: validateInstanceKey_def)
  have keys: "\<forall>(key, m) \<in> set (instances sample_state). validateInstanceKey key = Inr ()"
    using key by (simp add: sample_state_def)
  have keys0: "\<forall>(key, m) \<in> set (instances createEmptyState). validateInstanceKey key = Inr ()"
    by (simp add: createEmptyState_def)
  have accessible: "\<not> fs_fails ?P (Access (join (join ''/work'' STATE_DIR_NAME) STATE_FILE_NAME))"
    by (simp add: sample_platform_def)
  have readable: "\<not> fs_fails ?P (ReadFile (join (join ''/work'' STATE_DIR_NAME) STATE_FILE_NAME))"
    by (simp add: sample_platform_def)
  have quiet: "\<forall>call. \<not> fs_fails ?P call"
    by (simp add: sample_platform_def)
  have free: "files (sample_world []) (join ''/work'' STATE_DIR_NAME) = None"
    "dirs (sample_world []) (join (join ''/work'' STATE_DIR_NAME) STATE_FILE_NAME) = None"
    "dirs (sample_world []) (join (join ''/work'' STATE_DIR_NAME) (STATE_FILE_NAME @ ''.tmp'')) = None"
    by (simp_all add: sample_world_def)
  from writeState_readState_roundtrip [OF keys sample_stringify_parse(1) accessible readable,
      of "sample_world []"] quiet free
  have one: "\<exists>w'. writeState ?P sample_state ''/work'' (sample_world []) = (Inr (), w')
           \<and> readState ?P ''/work'' w' = Inr sample_state"
    by blast
  from writeState_readState_roundtrip [OF keys0 sample_stringify_parse(2) accessible readable,
      of "sample_world []"] quiet free
  have none: "\<exists>w'. writeState ?P createEmptyState ''/work'' (sample_world []) = (Inr (), w')
           \<and> readState ?P ''/work'' w' = Inr createEmptyState"
    by blast
  from sample_stringify_parse(1) key one none show ?thesis by blast
qed

text \<open>
  C8, at the failing input. The local \<open>writeState\<close> has no cleanup: when the rename of the
  temporary file is refused, the write fails and the temporary file, with the serialized
  collection in it, is still there.
\<close>

theorem writeState_failed_rename_leaves_temp_file:
  "fst (writeState
          (sample_platform sample_docs
             (\<lambda>call. call = Rename ''/work/.dbx/state.json.tmp'' ''/work/.dbx/state.json'')
             (\<lambda>n. NoEvent) (\<lambda>command n. []))
          sample_state ''/work'' (sample_world []))
     = Inl (StateValidationError
              (FailedToRenameTempStateFile ''/work/.dbx/state.json.tmp'' ''/work/.dbx/state.json''))
   \<and> files (snd (writeState
          (sample_platform sample_docs
             (\<lambda>call. call = Rename ''/work/.dbx/state.json.tmp'' ''/work/.dbx/state.json'')
             (\<lambda>n. NoEvent) (\<lambda>command n. []))
          sample_state ''/work'' (sample_world [])))
       ''/work/.dbx/state.json.tmp''
     = Some (text_sample_state @ ''\<newline>'', 384)"
  by (simp add: writeState_def Let_def fs_mkdir_def fs_chmod_def fs_writeFile_def fs_rename_def
        sample_platform_def sample_world_def sample_docs_def join_def STATE_DIR_NAME_def
        STATE_FILE_NAME_def DIR_PERMISSIONS_def FILE_PERMISSIONS_def state_toJSON_def
        createEmptyState_def sample_state_def text_empty_state_def)

section \<open>Properties of the command executor\<close>




lemma exec_events_never_command_error:
  "fst (exec_events command T timer out err events) \<noteq> Inl (SSHCommandError code output)"
proof (induction events arbitrary: out err)
  case Nil
  then show ?case by simp
next
  case (Cons a events)
  obtain t ev where a: "a = (t, ev)" by (cases a)
  with Cons show ?case by (cases ev) auto
qed

lemma exec_events_never_validation_error:
  "fst (exec_events command T timer out err events) \<noteq> Inl (StateValidationError message)"
proof (induction events arbitrary: out err)
  case Nil
  then show ?case by simp
next
  case (Cons a events)
  obtain t ev where a: "a = (t, ev)" by (cases a)
  with Cons show ?case by (cases ev) auto
qed

lemma exec_never_command_error:
  "fst (exec P c command timeout w) \<noteq> Inl (SSHCommandError code output)"
  using exec_events_never_command_error
  by (auto simp add: exec_def Let_def split: prod.splits exec_outcome.splits
        dest: arg_cong [where f = fst])

lemma exec_never_validation_error:
  "fst (exec P c command timeout w) \<noteq> Inl (StateValidationError message)"
  using exec_events_never_validation_error
  by (auto simp add: exec_def Let_def split: prod.splits exec_outcome.splits
        dest: arg_cong [where f = fst])





section \<open>Properties of the remote state store\<close>

lemma validateInstance_not_permission:
  "validateInstance key val \<noteq> Inl (StateValidationError PermissionDeniedReadingRemoteState)"
  using validateInstanceKey_cases [of key]
  unfolding validateInstance_def
  by (auto split: sum.splits if_splits option.splits)

lemma validateInstances_not_permission:
  "validateInstances es \<noteq> Inl (StateValidationError PermissionDeniedReadingRemoteState)"
proof (induction es)
  case Nil
  then show ?case by simp
next
  case (Cons kv es)
  obtain key val where kv: "kv = (key, val)" by (cases kv)
  with Cons validateInstance_not_permission [of key val] show ?case
    by (auto split: sum.splits)
qed

lemma validateState_not_permission:
  "validateState state \<noteq> Inl (StateValidationError PermissionDeniedReadingRemoteState)"
  using validateInstances_not_permission
  unfolding validateState_def
  by (auto split: if_splits option.splits sum.splits)

lemma readRemoteState_catch_thrown_by_exec:
  assumes "fst (exec P c command timeout w) = Inl err"
  shows "readRemoteState_catch err = Inl (StateValidationError (FailedToReadRemoteState err))"
  using assms exec_never_command_error [of P c command timeout w]
    exec_never_validation_error [of P c command timeout w]
  by (cases err) (simp_all add: readRemoteState_catch_def)

text \<open>
  C10. Whenever the remote \<open>cat\<close> of the state file completes with a non-zero exit code,
  whatever the reason, \<open>readRemoteState\<close> returns the empty collection. The executor never
  raises a command error, so every error it does raise ends in the handler's last branch
  (the read fails with the error wrapped), and the branches for a missing file and for a
  denied permission are never taken: no read fails with the permission-denied error.
\<close>

theorem readRemoteState_nonzero_exit_is_empty:
  "(exec P c (''cat '' @ REMOTE_STATE_FILE) None w = (Inr result, w') \<and> exitCode result \<noteq> 0 \<longrightarrow>
      readRemoteState P c w = (Inr createEmptyState, w'))
   \<and> (\<forall>command timeout code errout.
         fst (exec P c command timeout w) \<noteq> Inl (SSHCommandError code errout))
   \<and> (exec P c (''cat '' @ REMOTE_STATE_FILE) None w = (Inl err, w') \<longrightarrow>
        readRemoteState P c w = (Inl (StateValidationError (FailedToReadRemoteState err)), w'))
   \<and> fst (readRemoteState P c w) \<noteq> Inl (StateValidationError PermissionDeniedReadingRemoteState)"
proof (intro conjI impI allI)
  assume "exec P c (''cat '' @ REMOTE_STATE_FILE) None w = (Inr result, w') \<and> exitCode result \<noteq> 0"
  then show "readRemoteState P c w = (Inr createEmptyState, w')"
    by (simp add: readRemoteState_def readRemoteState_try_def and_then_def)
next
  fix command timeout code errout
  show "fst (exec P c command timeout w) \<noteq> Inl (SSHCommandError code errout)"
    by (rule exec_never_command_error)
next
  assume a: "exec P c (''cat '' @ REMOTE_STATE_FILE) None w = (Inl err, w')"
  then have "fst (exec P c (''cat '' @ REMOTE_STATE_FILE) None w) = Inl err" by simp
  from readRemoteState_catch_thrown_by_exec [OF this] a
  show "readRemoteState P c w = (Inl (StateValidationError (FailedToReadRemoteState err)), w')"
    by (simp add: readRemoteState_def readRemoteState_try_def and_then_def)
next
  show "fst (readRemoteState P c w) \<noteq> Inl (StateValidationError PermissionDeniedReadingRemoteState)"
  proof (cases "exec P c (''cat '' @ REMOTE_STATE_FILE) None w")
    case (Pair a w1)
    show ?thesis
    proof (cases a)
      case (Inl err)
      with Pair have "fst (exec P c (''cat '' @ REMOTE_STATE_FILE) None w) = Inl err" by simp
      from readRemoteState_catch_thrown_by_exec [OF this] Pair Inl show ?thesis
        by (simp add: readRemoteState_def readRemoteState_try_def and_then_def)
    next
      case (Inr result)
      with Pair validateState_not_permission show ?thesis
        by (auto simp add: readRemoteState_def readRemoteState_try_def and_then_def
              readRemoteState_catch_def
              split: option.splits sum.splits error.splits dest: validateState_Inl)
    qed
  qed
qed

theorem readRemoteState_nonzero_exit_is_empty_witness:
  "fst (exec (sample_platform [] (\<lambda>call. False) (\<lambda>n. ReadyEvent 5)
          (\<lambda>command n. [(2, StderrData ''cat: /var/lib/dbx/state.json: Permission denied''),
                         (3, StreamClose (Some 1))]))
        sample_client (''cat '' @ REMOTE_STATE_FILE) None (sample_world []))
     = Inr \<lparr>stdout = [], stderr = ''cat: /var/lib/dbx/state.json: Permission denied'', exitCode = 1\<rparr>
   \<and> fst (readRemoteState (sample_platform [] (\<lambda>call. False) (\<lambda>n. ReadyEvent 5)
          (\<lambda>command n. [(2, StderrData ''cat: /var/lib/dbx/state.json: Permission denied''),
                         (3, StreamClose (Some 1))]))
        sample_client (sample_world []))
     = Inr createEmptyState"
proof -
  let ?P = "sample_platform [] (\<lambda>call. False) (\<lambda>n. ReadyEvent 5)
          (\<lambda>command n. [(2, StderrData ''cat: /var/lib/dbx/state.json: Permission denied''),
                         (3, StreamClose (Some 1))])"
  obtain w1 where run: "exec ?P sample_client (''cat '' @ REMOTE_STATE_FILE) None (sample_world [])
     = (Inr \<lparr>stdout = [], stderr = ''cat: /var/lib/dbx/state.json: Permission denied'', exitCode = 1\<rparr>, w1)"
    by (simp add: exec_def sample_platform_def sample_world_def sample_client_def new_SSHClient_def
          sample_config_def DEFAULT_EXEC_TIMEOUT_def setTimeout_delay_def trim_def
          is_whitespace_def)
  from readRemoteState_nonzero_exit_is_empty [where P = ?P and c = sample_client
      and w = "sample_world []" and w' = w1
      and result = "\<lparr>stdout = [], stderr = ''cat: /var/lib/dbx/state.json: Permission denied'',
                     exitCode = 1\<rparr>"] run
  have "readRemoteState ?P sample_client (sample_world []) = (Inr createEmptyState, w1)"
    by simp
  with run show ?thesis by simp
qed

section \<open>Properties of the retrying wrapper\<close>

lemmas eval_defs = execWithRetry_def execWithRetry_attempt_def connect_def exec_def and_then_def
  new_SSHClient_def sample_config_def sample_platform_def sample_world_def fs_readFile_def
  classify_connect_error_def toLowerCase_def sleep_def retry_delay_def trim_def is_whitespace_def
  setTimeout_delay_def timer_of_def
  DEFAULT_EXEC_TIMEOUT_def DEFAULT_CONNECT_TIMEOUT_def key_file_def ok_answer_def Let_def

text \<open>
  C4, at the failing input. The wrapper is to retry on connection errors only, and the
  branch of its handler that waits before the next attempt is written for connection
  errors; but the branch tests nothing, so every error that is neither an authentication
  error nor a command error reaches it. Here the connection succeeds and the channel of the
  command never closes: the first attempt ends in a timeout error, which is no connection
  error, and the wrapper waits one second, runs the command again on a fresh connection and
  returns the result of the second attempt.
\<close>

theorem execWithRetry_retries_a_timeout:
  "fst (execWithRetry_attempt
          (sample_platform [] (\<lambda>call. False) (\<lambda>n. ReadyEvent 5)
             (\<lambda>command n. if n = 1 then [] else ok_answer))
          sample_config ''uptime'' (sample_world key_file))
     = Inl (SSHTimeoutError ''uptime'' 120000)
   \<and> fst (execWithRetry
          (sample_platform [] (\<lambda>call. False) (\<lambda>n. ReadyEvent 5)
             (\<lambda>command n. if n = 1 then [] else ok_answer))
          sample_config ''uptime'' 3 (sample_world key_file))
     = Inr \<lparr>stdout = ''ok'', stderr = [], exitCode = 0\<rparr>
   \<and> timers (snd (execWithRetry
          (sample_platform [] (\<lambda>call. False) (\<lambda>n. ReadyEvent 5)
             (\<lambda>command n. if n = 1 then [] else ok_answer))
          sample_config ''uptime'' 3 (sample_world key_file)))
     = [1000]"
  by (simp add: eval_defs)

section \<open>Properties of the readiness wait\<close>

lemma waitForMongoReady_loop_error:
  "fst (waitForMongoReady_loop P c name rootUsername rootPwd timeout startTime delay w) = Inl e
     \<Longrightarrow> e = Error (FailedToBecomeReadyWithin timeout)"
proof (induction P c name rootUsername rootPwd timeout startTime delay w
         rule: waitForMongoReady_loop.induct)
  case (1 P c name rootUsername rootPwd timeout startTime delay w)
  show ?case
  proof (cases "clock w - startTime < timeout")
    case False
    with "1.prems" show ?thesis
      by (subst (asm) waitForMongoReady_loop.simps) simp
  next
    case True
    show ?thesis
    proof (cases "fst (waitForMongoReady_try P c name rootUsername rootPwd w) = Inr True")
      case ready: True
      with True "1.prems" show ?thesis
        by (subst (asm) waitForMongoReady_loop.simps) simp
    next
      case False
      with True "1.prems" have
        "fst (waitForMongoReady_loop P c name rootUsername rootPwd timeout startTime
                (min (delay * (3 / 2)) 5000)
                (sleep delay (snd (waitForMongoReady_try P c name rootUsername rootPwd w)))) = Inl e"
        by (subst (asm) waitForMongoReady_loop.simps) simp
      with "1.IH" [OF True False] show ?thesis by simp
    qed
  qed
qed

lemma waitForMongoReady_only_error_is_timeout:
  "fst (waitForMongoReady P c name rootUsername rootPwd timeout w) = Inl e
     \<Longrightarrow> e = Error (FailedToBecomeReadyWithin timeout)"
  unfolding waitForMongoReady_def by (rule waitForMongoReady_loop_error)

lemma crashed_try:
  "later = time + 51 \<Longrightarrow> m = n + 2 \<Longrightarrow>
   waitForMongoReady_try crashed_container sample_client ''dbx_app_dev'' ''root'' ''root-secret''
     (world_at n time slept)
     = (Inl (Error (ContainerCrashedDuringStartup [] ''Fatal: data directory not writable'')),
        world_at m later slept)"
  by (simp add: waitForMongoReady_try_def crashed_container_def exec_def and_then_def
        sample_platform_def sample_world_def sample_client_def new_SSHClient_def sample_config_def
        world_at_def docker_ps_command_def trim_def is_whitespace_def DEFAULT_EXEC_TIMEOUT_def
        setTimeout_delay_def)

lemma sleep_world_at_rat:
  "later = time + setTimeout_delay delay \<Longrightarrow>
     sleep delay (world_at n time slept) = world_at n later (slept @ [delay])"
  by (simp add: sleep_def world_at_def)

lemma crashed_poll:
  assumes "time < 30000" and "m = n + 2" and "later = time + 51 + setTimeout_delay delay"
    and "next_delay = min (delay * (3 / 2)) 5000" and "slept' = slept @ [delay]"
  shows "waitForMongoReady_loop crashed_container sample_client ''dbx_app_dev'' ''root''
           ''root-secret'' 30000 0 delay (world_at n time slept)
         = waitForMongoReady_loop crashed_container sample_client ''dbx_app_dev'' ''root''
           ''root-secret'' 30000 0 next_delay (world_at m later slept')"
proof -
  have poll: "waitForMongoReady_try crashed_container sample_client ''dbx_app_dev'' ''root''
                ''root-secret'' (world_at n time slept)
     = (Inl (Error (ContainerCrashedDuringStartup [] ''Fatal: data directory not writable'')),
        world_at m (time + 51) slept)"
    using assms(2) by (intro crashed_try) simp_all
  have wait: "sleep delay (world_at m (time + 51) slept) = world_at m later slept'"
    using assms(3,5) by (simp add: sleep_world_at_rat)
  have now: "clock (world_at n time slept) = time"
    by (simp add: world_at_def)
  show ?thesis
    using assms(1,4) poll wait now
    by (subst waitForMongoReady_loop.simps) simp
qed

lemma crashed_end:
  assumes "\<not> time < 30000"
  shows "waitForMongoReady_loop crashed_container sample_client ''dbx_app_dev'' ''root''
           ''root-secret'' 30000 0 delay (world_at n time slept)
         = (Inl (Error (FailedToBecomeReadyWithin 30000)), world_at n time slept)"
proof -
  have now: "clock (world_at n time slept) = time"
    by (simp add: world_at_def)
  show ?thesis
    using assms now by (subst waitForMongoReady_loop.simps) simp
qed

lemma floors:
  "\<lfloor>(3375 :: rat) / 2\<rfloor> = 1687" "\<lfloor>(10125 :: rat) / 4\<rfloor> = 2531" "\<lfloor>(30375 :: rat) / 8\<rfloor> = 3796"
  by (rule floor_unique; simp)+

text \<open>
  C3, at the failing input. The container is not among the running ones at any poll of the
  wait. Each pass of the \<open>try\<close> block fetches the logs and throws the error that the
  container crashed, and the empty \<open>catch\<close> drops it: the wait polls on, ten times with the
  default timeout, and ends after 30.899 seconds in the timeout error of a service that
  never answered.
\<close>

theorem waitForMongoReady_crash_ends_in_timeout:
  "fst (waitForMongoReady_try crashed_container sample_client ''dbx_app_dev'' ''root'' ''root-secret''
          (sample_world key_file))
     = Inl (Error (ContainerCrashedDuringStartup [] ''Fatal: data directory not writable''))
   \<and> waitForMongoReady crashed_container sample_client ''dbx_app_dev'' ''root'' ''root-secret''
       30000 (sample_world key_file)
     = (Inl (Error (FailedToBecomeReadyWithin 30000)),
        world_at 20 30899 [500, 750, 1125, 3375 / 2, 10125 / 4, 30375 / 8, 5000, 5000, 5000, 5000])"
proof -
  let ?loop = "waitForMongoReady_loop crashed_container sample_client ''dbx_app_dev'' ''root''
                 ''root-secret'' 30000 0"
  have start: "sample_world key_file = world_at 0 0 []"
    by (simp add: world_at_def sample_world_def)
  have first: "fst (waitForMongoReady_try crashed_container sample_client ''dbx_app_dev'' ''root''
                      ''root-secret'' (sample_world key_file))
     = Inl (Error (ContainerCrashedDuringStartup [] ''Fatal: data directory not writable''))"
    unfolding start using crashed_try [of 51 0 2 0 "[]"] by simp
  have "?loop 500 (world_at 0 0 []) = ?loop 750 (world_at 2 551 [500])"
    by (rule crashed_poll) (simp_all add: setTimeout_delay_def)
  also have "\<dots> = ?loop 1125 (world_at 4 1352 [500, 750])"
    by (rule crashed_poll) (simp_all add: setTimeout_delay_def)
  also have "\<dots> = ?loop (3375 / 2) (world_at 6 2528 [500, 750, 1125])"
    by (rule crashed_poll) (simp_all add: setTimeout_delay_def)
  also have "\<dots> = ?loop (10125 / 4) (world_at 8 4266 [500, 750, 1125, 3375 / 2])"
    by (rule crashed_poll) (simp_all add: setTimeout_delay_def floors)
  also have "\<dots> = ?loop (30375 / 8) (world_at 10 6848 [500, 750, 1125, 3375 / 2, 10125 / 4])"
    by (rule crashed_poll) (simp_all add: setTimeout_delay_def floors)
  also have "\<dots> = ?loop 5000 (world_at 12 10695 [500, 750, 1125, 3375 / 2, 10125 / 4, 30375 / 8])"
    by (rule crashed_poll) (simp_all add: setTimeout_delay_def floors)
  also have "\<dots> = ?loop 5000
      (world_at 14 15746 [500, 750, 1125, 3375 / 2, 10125 / 4, 30375 / 8, 5000])"
    by (rule crashed_poll) (simp_all add: setTimeout_delay_def)
  also have "\<dots> = ?loop 5000
      (world_at 16 20797 [500, 750, 1125, 3375 / 2, 10125 / 4, 30375 / 8, 5000, 5000])"
    by (rule crashed_poll) (simp_all add: setTimeout_delay_def)
  also have "\<dots> = ?loop 5000
      (world_at 18 25848 [500, 750, 1125, 3375 / 2, 10125 / 4, 30375 / 8, 5000, 5000, 5000])"
    by (rule crashed_poll) (simp_all add: setTimeout_delay_def)
  also have "\<dots> = ?loop 5000
      (world_at 20 30899 [500, 750, 1125, 3375 / 2, 10125 / 4, 30375 / 8, 5000, 5000, 5000, 5000])"
    by (rule crashed_poll) (simp_all add: setTimeout_delay_def)
  also have "\<dots> = (Inl (Error (FailedToBecomeReadyWithin 30000)),
      world_at 20 30899 [500, 750, 1125, 3375 / 2, 10125 / 4, 30375 / 8, 5000, 5000, 5000, 5000])"
    by (rule crashed_end) simp
  finally have run: "?loop 500 (world_at 0 0 [])
     = (Inl (Error (FailedToBecomeReadyWithin 30000)),
        world_at 20 30899 [500, 750, 1125, 3375 / 2, 10125 / 4, 30375 / 8, 5000, 5000, 5000, 5000])" .
  have now: "clock (world_at 0 0 []) = 0"
    by (simp add: world_at_def)
  have "waitForMongoReady crashed_container sample_client ''dbx_app_dev'' ''root''
       ''root-secret'' 30000 (sample_world key_file) = ?loop 500 (world_at 0 0 [])"
    unfolding waitForMongoReady_def start now by (rule refl)
  with run first show ?thesis by (simp del: waitForMongoReady_loop.simps)
qed

section \<open>Properties of reconciliation\<close>























end
